(* ===== verification/JS_Prelude.thy ===== *)
theory JS_Prelude
  imports Complex_Main "HOL-Library.Word" "HOL-Library.Sublist" "HOL-Library.Multiset"
begin

text \<open>
  The JavaScript and browser primitives that \<^verbatim>\<open>src/js/main.js\<close> calls, written out
  once so that the component theories share them: strings as lists of UTF-16 code
  units (\<open>16 word\<close>), \<^verbatim>\<open>String.prototype.trim\<close>, \<^verbatim>\<open>split\<close>, \<^verbatim>\<open>startsWith\<close> and
  \<^verbatim>\<open>includes\<close>, the \<^verbatim>\<open>DOMTokenList\<close> operations behind \<^verbatim>\<open>classList\<close>, the
  timer queue behind \<^verbatim>\<open>setTimeout\<close>, and the way an inline colour assigned as
  \<^verbatim>\<open>#rrggbb\<close> is read back as \<^verbatim>\<open>rgb(r, g, b)\<close>. None of this is code of the
  repository; it is the environment the repository's code runs in. Each primitive
  comes with the lemmas the components use, most of them in the collection
  \<open>js_simps\<close>.
\<close>

named_theorems js_simps "rewrite rules for the JavaScript and DOM primitives"

section \<open>Strings\<close>

text \<open>A JavaScript string is a sequence of UTF-16 code units; \<^verbatim>\<open>length\<close> and
  \<^verbatim>\<open>charAt\<close> count and index code units. \<open>js\<close> writes an ASCII literal.\<close>

type_synonym jstr = "16 word list"

definition js :: "string \<Rightarrow> jstr" where
  "js s = map (\<lambda>c. of_nat (of_char c)) s"

text \<open>WhiteSpace and LineTerminator of ECMA-262: the code units that \<^verbatim>\<open>\s\<close>
  matches and that \<^verbatim>\<open>trim\<close> removes.\<close>

definition is_js_space :: "16 word \<Rightarrow> bool" where
  "is_js_space c \<longleftrightarrow>
     c \<in> {9, 10, 11, 12, 13, 32, 160, 5760, 8232, 8233, 8239, 8287, 12288, 65279}
     \<or> (8192 \<le> c \<and> c \<le> 8202)"

definition js_trim :: "jstr \<Rightarrow> jstr" where
  "js_trim s = rev (dropWhile is_js_space (rev (dropWhile is_js_space s)))"

definition starts_with :: "jstr \<Rightarrow> jstr \<Rightarrow> bool" where
  "starts_with s p \<longleftrightarrow> take (length p) s = p"

fun js_includes :: "jstr \<Rightarrow> jstr \<Rightarrow> bool" where
  "js_includes [] p \<longleftrightarrow> p = []"
| "js_includes (c # s) p \<longleftrightarrow> starts_with (c # s) p \<or> js_includes s p"

text \<open>\<^verbatim>\<open>s.split(d)\<close> for a one-unit separator, and \<^verbatim>\<open>ws.join(d)\<close>.\<close>

fun js_split :: "16 word \<Rightarrow> jstr \<Rightarrow> jstr list" where
  "js_split d [] = [[]]"
| "js_split d (c # s) =
     (let ws = js_split d s in if c = d then [] # ws else (c # hd ws) # tl ws)"

fun js_join :: "16 word \<Rightarrow> jstr list \<Rightarrow> jstr" where
  "js_join d [] = []"
| "js_join d [w] = w"
| "js_join d (w # v # ws) = w @ d # js_join d (v # ws)"

section \<open>Exceptions\<close>

text \<open>An uncaught exception ends the running handler. The script can raise a
  \<^verbatim>\<open>TypeError\<close> by reading a property of \<^verbatim>\<open>null\<close> when an element it looks up
  is missing, and a \<^verbatim>\<open>SyntaxError\<close> when \<^verbatim>\<open>querySelector\<close> is given an
  invalid selector. A handler's result is \<open>js_error + 'a\<close>; \<open>js_bind\<close> sequences
  two steps and stops at the first exception.\<close>

datatype js_error = TypeError | SyntaxError

definition js_bind :: "js_error + 'a \<Rightarrow> ('a \<Rightarrow> js_error + 'b) \<Rightarrow> js_error + 'b" where
  "js_bind x f = (case x of Inl e \<Rightarrow> Inl e | Inr a \<Rightarrow> f a)"

section \<open>Class lists\<close>

text \<open>\<^verbatim>\<open>element.classList\<close>: an ordered set of class names. \<^verbatim>\<open>add\<close> appends a
  name that is not there, \<^verbatim>\<open>remove\<close> drops it, \<^verbatim>\<open>toggle\<close> does whichever applies.\<close>

type_synonym class_list = "jstr list"

definition cl_add :: "jstr \<Rightarrow> class_list \<Rightarrow> class_list" where
  "cl_add c l = (if c \<in> set l then l else l @ [c])"

definition cl_remove :: "jstr \<Rightarrow> class_list \<Rightarrow> class_list" where
  "cl_remove c l = removeAll c l"

definition cl_toggle :: "jstr \<Rightarrow> class_list \<Rightarrow> class_list" where
  "cl_toggle c l = (if c \<in> set l then cl_remove c l else cl_add c l)"

section \<open>Timers\<close>

text \<open>Pending \<^verbatim>\<open>setTimeout\<close> callbacks, in the order they will run: by due time
  in milliseconds, and among equal due times in the order they were scheduled
  (HTML timer initialisation steps).\<close>

type_synonym 'task timer_queue = "(nat \<times> 'task) list"

fun tq_insert :: "nat \<Rightarrow> 'task \<Rightarrow> 'task timer_queue \<Rightarrow> 'task timer_queue" where
  "tq_insert d t [] = [(d, t)]"
| "tq_insert d t (e # q) = (if d < fst e then (d, t) # e # q else e # tq_insert d t q)"

section \<open>Inline colours\<close>

text \<open>After \<^verbatim>\<open>el.style.borderColor = "#dc2626"\<close>, reading \<^verbatim>\<open>el.style.borderColor\<close>
  gives the CSSOM serialisation \<^verbatim>\<open>rgb(220, 38, 38)\<close>; the empty string clears the
  property. \<open>css_color_value v\<close> is the value read back after assigning \<open>v\<close>, for
  the empty string and for six-digit hex colours, the only values the script assigns.\<close>

definition hex_digit :: "16 word \<Rightarrow> nat option" where
  "hex_digit c =
     (if 48 \<le> c \<and> c \<le> 57 then Some (unat c - 48)
      else if 97 \<le> c \<and> c \<le> 102 then Some (unat c - 87)
      else if 65 \<le> c \<and> c \<le> 70 then Some (unat c - 55)
      else None)"

definition hex_byte :: "16 word \<Rightarrow> 16 word \<Rightarrow> 8 word option" where
  "hex_byte a b =
     (case (hex_digit a, hex_digit b) of
        (Some x, Some y) \<Rightarrow> Some (of_nat (16 * x + y))
      | _ \<Rightarrow> None)"

fun parse_hex_color :: "jstr \<Rightarrow> (8 word \<times> 8 word \<times> 8 word) option" where
  "parse_hex_color [h, a, b, c, d, e, f] =
     (if h = 35 then
        (case (hex_byte a b, hex_byte c d, hex_byte e f) of
           (Some r, Some g, Some bl) \<Rightarrow> Some (r, g, bl)
         | _ \<Rightarrow> None)
      else None)"
| "parse_hex_color _ = None"

fun dec_digits :: "nat \<Rightarrow> jstr" where
  "dec_digits n =
     (if n < 10 then [of_nat (48 + n)] else dec_digits (n div 10) @ [of_nat (48 + n mod 10)])"

definition rgb_serialize :: "8 word \<Rightarrow> 8 word \<Rightarrow> 8 word \<Rightarrow> jstr" where
  "rgb_serialize r g b =
     js ''rgb('' @ dec_digits (unat r) @ js '', '' @ dec_digits (unat g) @ js '', ''
     @ dec_digits (unat b) @ js '')''"

definition css_color_value :: "jstr \<Rightarrow> jstr" where
  "css_color_value v =
     (case parse_hex_color v of Some (r, g, b) \<Rightarrow> rgb_serialize r g b | None \<Rightarrow> v)"


section \<open>Lemmas on the primitives\<close>

subsection \<open>Trimming\<close>

lemma all_set_dropWhile: "(\<forall>x \<in> set (dropWhile P xs). P x) \<longleftrightarrow> (\<forall>x \<in> set xs. P x)"
  by (induction xs) auto

lemma js_trim_Nil_iff [js_simps]: "js_trim s = [] \<longleftrightarrow> (\<forall>c \<in> set s. is_js_space c)"
  by (simp add: js_trim_def all_set_dropWhile)

lemma hd_dropWhile_not: "dropWhile P xs \<noteq> [] \<Longrightarrow> \<not> P (hd (dropWhile P xs))"
  by (induction xs) auto

lemma rev_dropWhile_rev_prefix: "rev (dropWhile P (rev a)) @ rev (takeWhile P (rev a)) = a"
  by (metis rev_append rev_rev_ident takeWhile_dropWhile_id)

lemma js_trim_hd: "js_trim s \<noteq> [] \<Longrightarrow> \<not> is_js_space (hd (js_trim s))"
proof -
  assume ne: "js_trim s \<noteq> []"
  let ?a = "dropWhile is_js_space s"
  have split: "js_trim s @ rev (takeWhile is_js_space (rev ?a)) = ?a"
    unfolding js_trim_def by (rule rev_dropWhile_rev_prefix)
  then have "?a \<noteq> []" using ne by (metis append_is_Nil_conv)
  then have "\<not> is_js_space (hd ?a)" by (rule hd_dropWhile_not)
  moreover have "hd ?a = hd (js_trim s)" using split ne by (metis hd_append2)
  ultimately show ?thesis by simp
qed

lemma js_trim_last: "js_trim s \<noteq> [] \<Longrightarrow> \<not> is_js_space (last (js_trim s))"
proof -
  assume ne: "js_trim s \<noteq> []"
  let ?b = "dropWhile is_js_space (rev (dropWhile is_js_space s))"
  have b: "?b \<noteq> []" using ne by (simp add: js_trim_def)
  then have "\<not> is_js_space (hd ?b)" by (rule hd_dropWhile_not)
  moreover have "last (js_trim s) = hd ?b" using b by (simp add: js_trim_def last_rev)
  ultimately show ?thesis by simp
qed

lemma js_trim_sublist: "sublist (js_trim s) s"
proof -
  let ?a = "dropWhile is_js_space s" and ?t = "takeWhile is_js_space s"
  have a: "js_trim s @ rev (takeWhile is_js_space (rev ?a)) = ?a"
    unfolding js_trim_def by (rule rev_dropWhile_rev_prefix)
  have "s = ?t @ ?a" by simp
  also have "\<dots> = ?t @ js_trim s @ rev (takeWhile is_js_space (rev ?a))" by (simp only: a)
  finally show ?thesis unfolding sublist_def by blast
qed

subsection \<open>Searching and splitting\<close>

lemma starts_with_prefix: "starts_with s p \<longleftrightarrow> prefix p s"
  unfolding starts_with_def prefix_def by (metis append_eq_conv_conj)

lemma js_includes_sublist: "js_includes s p \<longleftrightarrow> sublist p s"
  by (induction s) (simp_all add: starts_with_prefix sublist_Cons_right)

lemma js_split_ne: "js_split d s \<noteq> []"
  by (induction s) (auto simp: Let_def)

lemma js_join_Cons_Cons: "js_join d ((c # w) # ws) = c # js_join d (w # ws)"
  by (cases ws) simp_all

lemma js_split_Cons: "js_split d s = w # ws \<Longrightarrow>
   js_split d (c # s) = (if c = d then [] # w # ws else (c # w) # ws)"
  by (simp add: Let_def)

lemma js_join_split: "js_join d (js_split d s) = s"
proof (induction s)
  case Nil then show ?case by simp
next
  case (Cons c s)
  obtain w ws where ws: "js_split d s = w # ws" using js_split_ne by (metis list.exhaust)
  with Cons.IH have "js_join d (w # ws) = s" by simp
  with ws show ?case by (simp add: Let_def js_join_Cons_Cons)
qed

lemma js_split_no_sep: "w \<in> set (js_split d s) \<Longrightarrow> d \<notin> set w"
proof (induction s arbitrary: w)
  case Nil then show ?case by simp
next
  case (Cons c s)
  obtain v vs where ws: "js_split d s = v # vs" using js_split_ne by (metis list.exhaust)
  have "d \<notin> set v" and "\<forall>u \<in> set vs. d \<notin> set u" using Cons.IH ws by simp_all
  with Cons.prems ws show ?case by (auto simp: Let_def split: if_splits)
qed

lemma js_split_no_occ: "d \<notin> set s \<Longrightarrow> js_split d s = [s]"
  by (induction s) (auto simp: Let_def)

lemma js_split_append_sep: "d \<notin> set a \<Longrightarrow> js_split d (a @ d # r) = a # js_split d r"
  by (induction a) (auto simp: Let_def)

lemma js_split_two: "js_split d s = [a, r] \<Longrightarrow> s = a @ d # r"
  using js_join_split [of d s] by simp

subsection \<open>Exceptions\<close>

lemma js_bind_Inl [simp]: "js_bind (Inl e) f = Inl e"
  by (simp add: js_bind_def)

lemma js_bind_Inr [simp]: "js_bind (Inr a) f = f a"
  by (simp add: js_bind_def)

lemma js_bind_eq_Inr: "js_bind x f = Inr b \<longleftrightarrow> (\<exists>a. x = Inr a \<and> f a = Inr b)"
  by (cases x) auto

subsection \<open>Class lists refine finite sets of names\<close>

lemma set_cl_add [simp, js_simps]: "set (cl_add c l) = insert c (set l)"
  by (auto simp: cl_add_def)

lemma set_cl_remove [simp, js_simps]: "set (cl_remove c l) = set l - {c}"
  by (simp add: cl_remove_def)

lemma set_cl_toggle [js_simps]:
  "set (cl_toggle c l) = (if c \<in> set l then set l - {c} else insert c (set l))"
  by (simp add: cl_toggle_def)

lemma distinct_cl_add [simp]: "distinct l \<Longrightarrow> distinct (cl_add c l)"
  by (simp add: cl_add_def)

lemma distinct_cl_remove [simp]: "distinct l \<Longrightarrow> distinct (cl_remove c l)"
  by (simp add: cl_remove_def distinct_removeAll)

lemma distinct_cl_toggle [simp]: "distinct l \<Longrightarrow> distinct (cl_toggle c l)"
  by (simp add: cl_toggle_def)

lemma cl_toggle_mem [simp]: "c \<in> set (cl_toggle c l) \<longleftrightarrow> c \<notin> set l"
  by (simp add: set_cl_toggle)

lemma cl_toggle_other [simp]: "c' \<noteq> c \<Longrightarrow> c' \<in> set (cl_toggle c l) \<longleftrightarrow> c' \<in> set l"
  by (auto simp: set_cl_toggle)

subsection \<open>The timer queue\<close>

lemma set_tq_insert [simp]: "set (tq_insert d t q) = insert (d, t) (set q)"
  by (induction q) auto

lemma mset_tq_insert [simp]: "mset (tq_insert d t q) = add_mset (d, t) (mset q)"
  by (induction q) auto

lemma length_tq_insert [simp]: "length (tq_insert d t q) = Suc (length q)"
  by (induction q) auto

lemma sorted_tq_insert [simp]: "sorted (map fst q) \<Longrightarrow> sorted (map fst (tq_insert d t q))"
  by (induction q) auto

lemma tq_insert_fifo: "sorted (map fst q) \<Longrightarrow> filter (\<lambda>e. fst e = d) (tq_insert d t q) = filter (\<lambda>e. fst e = d) q @ [(d, t)]"
proof (induction q)
  case Nil then show ?case by simp
next
  case (Cons e q)
  show ?case
  proof (cases "d < fst e")
    case True
    with Cons.prems have "filter (\<lambda>x. fst x = d) (e # q) = []" by (auto simp: filter_empty_conv)
    with True show ?thesis by simp
  next
    case False
    with Cons show ?thesis by simp
  qed
qed

subsection \<open>Colours\<close>

lemma css_color_value_red [js_simps]:
  "css_color_value (js ''#dc2626'') = js ''rgb(220, 38, 38)''"
  by (simp add: css_color_value_def js_def hex_byte_def hex_digit_def rgb_serialize_def)

lemma css_color_value_empty [simp, js_simps]: "css_color_value [] = []"
  by (simp add: css_color_value_def)

end
