(* ===== verification/Contact_Form.thy ===== *)
theory Contact_Form
  imports JS_Prelude
begin

text \<open>
  The contact form of \<^verbatim>\<open>src/js/main.js\<close> (lines 184--338): the submit handler,
  the blur and input handlers that revalidate one field (\<^verbatim>\<open>validateField\<close>),
  \<^verbatim>\<open>showFieldError\<close>, \<^verbatim>\<open>showFormMessage\<close>, and the two timer callbacks the
  handlers schedule (the simulated submission after 1500 ms and the auto-hide of the
  thank-you notice after 5000 ms). The state is the part of the page these functions
  read and write: the form's inputs, the \<^verbatim>\<open>.field-error\<close> divs of each
  \<^verbatim>\<open>.form-group\<close>, and the \<^verbatim>\<open>#form-message\<close> element. A handler returns the new
  state and the callbacks it schedules, as pairs of a delay and a task.
\<close>

section \<open>State\<close>

record form_input =
  in_id :: jstr          \<comment> \<open>\<^verbatim>\<open>input.id\<close>\<close>
  in_value :: jstr       \<comment> \<open>\<^verbatim>\<open>input.value\<close>\<close>
  in_default :: jstr     \<comment> \<open>the value \<^verbatim>\<open>form.reset()\<close> restores\<close>
  in_border :: jstr      \<comment> \<open>\<^verbatim>\<open>input.style.borderColor\<close>, as read back\<close>
  in_group :: nat        \<comment> \<open>its \<^verbatim>\<open>parentElement\<close>, a \<^verbatim>\<open>.form-group\<close>, by index\<close>

record form_message =
  msg_text :: jstr       \<comment> \<open>\<^verbatim>\<open>formMessage.textContent\<close>\<close>
  msg_class :: jstr      \<comment> \<open>\<^verbatim>\<open>formMessage.className\<close>\<close>
  msg_display :: jstr    \<comment> \<open>\<^verbatim>\<open>formMessage.style.display\<close>\<close>

record form_page =
  inputs :: "form_input list"
    \<comment> \<open>\<^verbatim>\<open>contactForm.querySelectorAll("input, textarea")\<close>, in document order\<close>
  group_errors :: "jstr list list"
    \<comment> \<open>for each \<^verbatim>\<open>.form-group\<close>, the texts of its \<^verbatim>\<open>.field-error\<close> divs in order\<close>
  form_msg :: "form_message option"
    \<comment> \<open>\<^verbatim>\<open>document.getElementById("form-message")\<close>\<close>

text \<open>The callbacks the form passes to \<^verbatim>\<open>setTimeout\<close>.\<close>

datatype form_task =
    SubmitDone   \<comment> \<open>lines 241--247\<close>
  | HideMessage  \<comment> \<open>lines 333--335\<close>

type_synonym form_result = "form_page \<times> (nat \<times> form_task) list"

section \<open>Validation rules\<close>

text \<open>The character class \<^verbatim>\<open>[^\s@]\<close> and the regular expression
  \<^verbatim>\<open>/^[^\s@]+@[^\s@]+\.[^\s@]+$/\<close> of lines 204 and 280: its language, and the test
  \<^verbatim>\<open>emailRegex.test\<close> as a function.\<close>

definition email_char :: "16 word \<Rightarrow> bool" where
  "email_char c \<longleftrightarrow> \<not> is_js_space c \<and> c \<noteq> 64"

definition email_regex_lang :: "jstr \<Rightarrow> bool" where
  "email_regex_lang s \<longleftrightarrow>
     (\<exists>a b c. s = a @ [64] @ b @ [46] @ c \<and> a \<noteq> [] \<and> b \<noteq> [] \<and> c \<noteq> []
        \<and> list_all email_char a \<and> list_all email_char b \<and> list_all email_char c)"

definition email_regex_test :: "jstr \<Rightarrow> bool" where
  "email_regex_test s =
     (case js_split 64 s of
        [a, r] \<Rightarrow> a \<noteq> [] \<and> list_all email_char a \<and> list_all email_char r
                  \<and> list_ex (\<lambda>c. c = 46) (butlast (tl r))
      | _ \<Rightarrow> False)"

text \<open>The four rules, each the negation of the code's error condition.\<close>

definition name_ok :: "jstr \<Rightarrow> bool" where
  "name_ok v \<longleftrightarrow> \<not> v = []"

definition email_ok :: "jstr \<Rightarrow> bool" where
  "email_ok v \<longleftrightarrow> \<not> (v = [] \<or> \<not> email_regex_test v)"

definition subject_ok :: "jstr \<Rightarrow> bool" where
  "subject_ok v \<longleftrightarrow> \<not> v = []"

definition message_ok :: "jstr \<Rightarrow> bool" where
  "message_ok v \<longleftrightarrow> \<not> (v = [] \<or> length v < 10)"

definition form_valid :: "jstr \<Rightarrow> jstr \<Rightarrow> jstr \<Rightarrow> jstr \<Rightarrow> bool" where
  "form_valid name email subject message \<longleftrightarrow>
     name_ok name \<and> email_ok email \<and> subject_ok subject \<and> message_ok message"

text \<open>The table of spec section 4.8, keyed by the field's id: the rule and the message
  \<^verbatim>\<open>showFieldError\<close> shows when it fails. Ids outside the table have no rule.\<close>

definition field_rule :: "jstr \<Rightarrow> jstr \<Rightarrow> bool" where
  "field_rule i v =
     (if i = js ''name'' then name_ok v
      else if i = js ''email'' then email_ok v
      else if i = js ''subject'' then subject_ok v
      else if i = js ''message'' then message_ok v
      else True)"

definition field_message :: "jstr \<Rightarrow> jstr" where
  "field_message i =
     (if i = js ''name'' then js ''Name is required''
      else if i = js ''email'' then js ''Valid email is required''
      else if i = js ''subject'' then js ''Subject is required''
      else js ''Message must be at least 10 characters'')"

section \<open>DOM helpers\<close>

text \<open>\<^verbatim>\<open>document.getElementById(id)\<close>: the first input with that id.\<close>

definition find_input :: "form_page \<Rightarrow> jstr \<Rightarrow> nat option" where
  "find_input p i = find (\<lambda>k. in_id (inputs p ! k) = i) [0..<length (inputs p)]"

text \<open>\<^verbatim>\<open>document.getElementById(id).value.trim()\<close>, lines 193--196.\<close>

definition input_value :: "form_page \<Rightarrow> jstr \<Rightarrow> js_error + jstr" where
  "input_value p i =
     (case find_input p i of
        None \<Rightarrow> Inl TypeError
      | Some k \<Rightarrow> Inr (js_trim (in_value (inputs p ! k))))"

text \<open>The border colour \<^verbatim>\<open>showFieldError\<close> assigns, as read back.\<close>

definition error_border :: jstr where
  "error_border = css_color_value (js ''#dc2626'')"

text \<open>\<^verbatim>\<open>showFieldError(fieldId, message)\<close>, lines 303--323: mark the field, remove
  the first \<^verbatim>\<open>.field-error\<close> of its group, append a new one.\<close>

definition show_field_error :: "jstr \<Rightarrow> jstr \<Rightarrow> form_page \<Rightarrow> form_page" where
  "show_field_error fid m p =
     (case find_input p fid of
        None \<Rightarrow> p
      | Some k \<Rightarrow>
          (let f = inputs p ! k; g = in_group f in
           p\<lparr>inputs := (inputs p)[k := f\<lparr>in_border := error_border\<rparr>],
             group_errors := (group_errors p)[g := tl (group_errors p ! g) @ [m]]\<rparr>))"

text \<open>\<^verbatim>\<open>showFormMessage(message, type)\<close>, lines 325--338.\<close>

definition show_form_message :: "jstr \<Rightarrow> jstr \<Rightarrow> form_page \<Rightarrow> form_result" where
  "show_form_message m ty p =
     (case form_msg p of
        None \<Rightarrow> (p, [])
      | Some fm \<Rightarrow>
          (p\<lparr>form_msg := Some (fm\<lparr>msg_text := m, msg_class := js ''form-message '' @ ty,
                                   msg_display := js ''block''\<rparr>)\<rparr>,
           if ty = js ''success'' \<and> js_includes m (js ''Thank you'')
           then [(5000, HideMessage)] else []))"

section \<open>Handlers\<close>

text \<open>One rule of the submit handler (lines 211--229): on failure, show the field's
  error and clear \<^verbatim>\<open>isValid\<close>.\<close>

definition check_field :: "bool \<Rightarrow> jstr \<Rightarrow> jstr \<Rightarrow> form_page \<times> bool \<Rightarrow> form_page \<times> bool" where
  "check_field bad fid m s =
     (if bad then (show_field_error fid m (fst s), False) else s)"

text \<open>Lines 199--209 of the submit listener: reset the notice's class and text, then
  clear the border of every input of a \<^verbatim>\<open>.form-group\<close>.\<close>

definition submit_reset :: "form_message \<Rightarrow> form_page \<Rightarrow> form_page" where
  "submit_reset fm p =
     p\<lparr>form_msg := Some (fm\<lparr>msg_class := js ''form-message'', msg_text := []\<rparr>),
       inputs := map (\<lambda>f. f\<lparr>in_border := []\<rparr>) (inputs p)\<rparr>"

text \<open>Lines 203 and 211--229: the four rules in order, starting from
  \<^verbatim>\<open>isValid = true\<close>.\<close>

definition validate_all :: "jstr \<Rightarrow> jstr \<Rightarrow> jstr \<Rightarrow> jstr \<Rightarrow> form_page \<Rightarrow> form_page \<times> bool" where
  "validate_all name email subject message p =
     check_field (\<not> message_ok message) (js ''message'') (js ''Message must be at least 10 characters'')
     (check_field (\<not> subject_ok subject) (js ''subject'') (js ''Subject is required'')
     (check_field (\<not> email_ok email) (js ''email'') (js ''Valid email is required'')
     (check_field (\<not> name_ok name) (js ''name'') (js ''Name is required'') (p, True))))"

text \<open>The submit listener, lines 189--248. It reads the four values, resets the
  notice and every border, runs the four rules, and either shows the error notice or
  shows the sending notice and schedules the simulated submission.\<close>

definition submit_handler :: "form_page \<Rightarrow> js_error + form_result" where
  "submit_handler p =
     js_bind (input_value p (js ''name'')) (\<lambda>name.
     js_bind (input_value p (js ''email'')) (\<lambda>email.
     js_bind (input_value p (js ''subject'')) (\<lambda>subject.
     js_bind (input_value p (js ''message'')) (\<lambda>message.
     case form_msg p of
       None \<Rightarrow> Inl TypeError
     | Some fm \<Rightarrow>
         (let (p2, ok) = validate_all name email subject message (submit_reset fm p)
          in if \<not> ok then Inr (show_form_message (js ''Please fix the errors above.'') (js ''error'') p2)
             else
               (let (p3, ts) = show_form_message (js ''Sending message...'') (js ''success'') p2
                in Inr (p3, ts @ [(1500, SubmitDone)])))))))"

text \<open>\<^verbatim>\<open>validateField(field)\<close>, lines 265--301, for the input at index \<open>k\<close>: it
  returns the new state and the function's result \<^verbatim>\<open>isValid\<close>.\<close>

definition validate_field :: "nat \<Rightarrow> form_page \<Rightarrow> form_page \<times> bool" where
  "validate_field k p =
     (let f = inputs p ! k; v = js_trim (in_value f); i = in_id f;
          p1 = p\<lparr>inputs := (inputs p)[k := f\<lparr>in_border := []\<rparr>]\<rparr>
      in if i = js ''name'' then
           (if \<not> name_ok v then (show_field_error i (js ''Name is required'') p1, False) else (p1, True))
         else if i = js ''email'' then
           (if \<not> email_ok v then (show_field_error i (js ''Valid email is required'') p1, False)
            else (p1, True))
         else if i = js ''subject'' then
           (if \<not> subject_ok v then (show_field_error i (js ''Subject is required'') p1, False)
            else (p1, True))
         else if i = js ''message'' then
           (if \<not> message_ok v
            then (show_field_error i (js ''Message must be at least 10 characters'') p1, False)
            else (p1, True))
         else (p1, True))"

text \<open>The blur listener (lines 253--255) and the input listener (lines 257--261),
  which revalidates only a field whose border reads as the error colour. The input
  event comes after the browser has stored the typed value.\<close>

definition blur_handler :: "nat \<Rightarrow> form_page \<Rightarrow> form_page" where
  "blur_handler k p = fst (validate_field k p)"

definition input_handler :: "nat \<Rightarrow> jstr \<Rightarrow> form_page \<Rightarrow> form_page" where
  "input_handler k v p =
     (let p1 = p\<lparr>inputs := (inputs p)[k := (inputs p ! k)\<lparr>in_value := v\<rparr>]\<rparr>
      in if in_border (inputs p1 ! k) = js ''rgb(220, 38, 38)'' then fst (validate_field k p1) else p1)"

text \<open>The two timer callbacks. \<^verbatim>\<open>scrollIntoView\<close> moves the viewport only and is
  not part of the state.\<close>

definition submit_done :: "form_page \<Rightarrow> form_result" where
  "submit_done p =
     (let (p1, ts) = show_form_message
            (js ''Thank you! Your message has been sent. I'' @ [39] @ js ''ll get back to you soon.'')
            (js ''success'') p
      in (p1\<lparr>inputs := map (\<lambda>f. f\<lparr>in_value := in_default f\<rparr>) (inputs p1)\<rparr>, ts))"

definition hide_message :: "form_page \<Rightarrow> form_page" where
  "hide_message p =
     (case form_msg p of
        None \<Rightarrow> p
      | Some fm \<Rightarrow> p\<lparr>form_msg := Some (fm\<lparr>msg_display := js ''none''\<rparr>)\<rparr>)"

definition run_form_task :: "form_task \<Rightarrow> form_page \<Rightarrow> form_result" where
  "run_form_task t p = (case t of SubmitDone \<Rightarrow> submit_done p | HideMessage \<Rightarrow> (hide_message p, []))"

text \<open>The events the form's listeners receive (registered at lines 189, 253 and 257),
  an input named by its index in \<^verbatim>\<open>inputs\<close>, and the dispatch to the listener.
  \<open>Typed k v\<close> is the user editing input \<open>k\<close> to the value \<open>v\<close>. An index that
  names no input is an event that cannot happen and changes nothing.\<close>

datatype form_event = Submit | Blur nat | Typed nat jstr

fun form_handle :: "form_event \<Rightarrow> form_page \<Rightarrow> js_error + form_result" where
  "form_handle Submit p = submit_handler p"
| "form_handle (Blur k) p = Inr (if k < length (inputs p) then blur_handler k p else p, [])"
| "form_handle (Typed k v) p = Inr (if k < length (inputs p) then input_handler k v p else p, [])"

text \<open>No \<^verbatim>\<open>.form-group\<close> ever holds more than one \<^verbatim>\<open>.field-error\<close> div.\<close>

definition errs_le_one :: "form_page \<Rightarrow> bool" where
  "errs_le_one p \<longleftrightarrow> list_all (\<lambda>es. length es < 2) (group_errors p)"

section \<open>Example pages\<close>

text \<open>A page that satisfies the document contract of spec section 6: the four
  named fields, each in its own \<^verbatim>\<open>.form-group\<close>, and the message region. The
  witnesses below run the handlers on it with the inputs of spec section 8.\<close>

definition spec_input :: "string \<Rightarrow> string \<Rightarrow> nat \<Rightarrow> form_input" where
  "spec_input i v g = \<lparr>in_id = js i, in_value = js v, in_default = [], in_border = [], in_group = g\<rparr>"

definition spec_page :: "string \<Rightarrow> string \<Rightarrow> string \<Rightarrow> string \<Rightarrow> form_page" where
  "spec_page n e s m =
     \<lparr>inputs = [spec_input ''name'' n 0, spec_input ''email'' e 1, spec_input ''subject'' s 2,
                spec_input ''message'' m 3],
      group_errors = [[], [], [], []],
      form_msg = Some \<lparr>msg_text = [], msg_class = js ''form-message'', msg_display = []\<rparr>\<rparr>"

section \<open>Lemmas\<close>

subsection \<open>Lookup and frame lemmas\<close>

lemma find_input_Some:
  "find_input p i = Some k \<Longrightarrow> k < length (inputs p) \<and> in_id (inputs p ! k) = i"
  by (auto simp: find_input_def find_Some_iff)

lemma find_input_None: "find_input p i = None \<longleftrightarrow> i \<notin> set (map in_id (inputs p))"
  by (force simp: find_input_def find_None_iff in_set_conv_nth)

lemma find_input_distinct:
  assumes "distinct (map in_id (inputs p))" "k < length (inputs p)" "in_id (inputs p ! k) = i"
  shows "find_input p i = Some k"
proof -
  have "\<forall>j<k. in_id (inputs p ! j) \<noteq> i"
    using assms by (metis (no_types, lifting) distinct_conv_nth length_map nat_neq_iff nth_map order.strict_trans)
  with assms(2,3) show ?thesis by (auto simp: find_input_def find_Some_iff)
qed

lemma inputs_show_field_error:
  "inputs (show_field_error i m p) =
     (case find_input p i of None \<Rightarrow> inputs p
      | Some k \<Rightarrow> (inputs p)[k := (inputs p ! k)\<lparr>in_border := error_border\<rparr>])"
  by (simp add: show_field_error_def Let_def split: option.split)

lemma group_errors_show_field_error:
  "group_errors (show_field_error i m p) =
     (case find_input p i of None \<Rightarrow> group_errors p
      | Some k \<Rightarrow> (group_errors p)[in_group (inputs p ! k) :=
                     tl (group_errors p ! in_group (inputs p ! k)) @ [m]])"
  by (simp add: show_field_error_def Let_def split: option.split)

lemma form_msg_show_field_error [simp]: "form_msg (show_field_error i m p) = form_msg p"
  by (simp add: show_field_error_def Let_def split: option.split)

lemma length_inputs_show_field_error [simp]:
  "length (inputs (show_field_error i m p)) = length (inputs p)"
  by (simp add: inputs_show_field_error split: option.split)

lemma nth_inputs_show_field_error:
  "k < length (inputs p) \<Longrightarrow> inputs (show_field_error i m p) ! k =
     (if find_input p i = Some k then (inputs p ! k)\<lparr>in_border := error_border\<rparr> else inputs p ! k)"
  by (auto simp: inputs_show_field_error nth_list_update split: option.split)

lemma in_id_show_field_error [simp]:
  "map in_id (inputs (show_field_error i m p)) = map in_id (inputs p)"
  by (rule nth_equalityI) (simp_all add: nth_inputs_show_field_error)

lemma js_field_ids_distinct [simp]:
  "js ''name'' \<noteq> js ''email''" "js ''name'' \<noteq> js ''subject''" "js ''name'' \<noteq> js ''message''"
  "js ''email'' \<noteq> js ''subject''" "js ''email'' \<noteq> js ''message''" "js ''subject'' \<noteq> js ''message''"
  by (simp_all add: js_def)

lemma validate_field_eq:
  "validate_field k p =
     (let f = inputs p ! k; v = js_trim (in_value f);
          p1 = p\<lparr>inputs := (inputs p)[k := f\<lparr>in_border := []\<rparr>]\<rparr>
      in if field_rule (in_id f) v then (p1, True)
         else (show_field_error (in_id f) (field_message (in_id f)) p1, False))"
  unfolding validate_field_def field_rule_def field_message_def Let_def
  by (simp split: if_splits)

lemma check_field_snd [simp]: "snd (check_field b i m s) = (snd s \<and> \<not> b)"
  by (simp add: check_field_def)

lemma form_msg_check_field [simp]: "form_msg (fst (check_field b i m s)) = form_msg (fst s)"
  by (simp add: check_field_def)

lemma sending_no_thanks: "\<not> js_includes (js ''Sending message...'') (js ''Thank you'')"
  by code_simp

lemma success_ne_error: "js ''success'' \<noteq> js ''error''" "js ''error'' \<noteq> js ''success''"
  by (simp_all add: js_def)

subsection \<open>The e-mail pattern\<close>

lemma list_ex_inner:
  assumes "list_ex P (butlast (tl r))"
  shows "\<exists>b x c. r = b @ x # c \<and> b \<noteq> [] \<and> c \<noteq> [] \<and> P x"
proof -
  obtain x where x: "x \<in> set (butlast (tl r))" "P x" using assms by (auto simp: list_ex_iff)
  then obtain u w where uw: "butlast (tl r) = u @ x # w" by (meson split_list)
  have tl: "tl r \<noteq> []" using x(1) by auto
  then have r: "r = hd r # tl r" by (cases r) auto
  have "tl r = butlast (tl r) @ [last (tl r)]" using tl by simp
  with r uw have "r = (hd r # u) @ x # (w @ [last (tl r)])" by (metis append_Cons append_assoc)
  with x(2) show ?thesis by blast
qed

lemma email_char_not_at: "list_all email_char a \<Longrightarrow> 64 \<notin> set a"
  by (auto simp: list_all_iff email_char_def)

text \<open>C3. The test the code runs, \<^verbatim>\<open>emailRegex.test(s)\<close>, accepts exactly the
  strings of the language of \<^verbatim>\<open>/^[^\s@]+@[^\s@]+\.[^\s@]+$/\<close>: a non-empty local
  part, one \<^verbatim>\<open>@\<close>, and a domain with a dot that has a character on each side, none
  of the three parts containing whitespace or \<^verbatim>\<open>@\<close>.\<close>

theorem email_regex_test_correct: "email_regex_test s \<longleftrightarrow> email_regex_lang s"
proof
  assume t: "email_regex_test s"
  then obtain a r where sp: "js_split 64 s = [a, r]"
    by (auto simp: email_regex_test_def split: list.splits)
  with t have a: "a \<noteq> []" "list_all email_char a" and r: "list_all email_char r"
    and dot: "list_ex (\<lambda>c. c = 46) (butlast (tl r))"
    by (simp_all add: email_regex_test_def)
  obtain b x c where bxc: "r = b @ x # c" "b \<noteq> []" "c \<noteq> []" "x = 46"
    using list_ex_inner [OF dot] by blast
  have "s = a @ [64] @ b @ [46] @ c" using js_split_two [OF sp] bxc by simp
  moreover have "list_all email_char b" "list_all email_char c" using r bxc by simp_all
  ultimately show "email_regex_lang s" unfolding email_regex_lang_def using a bxc by blast
next
  assume "email_regex_lang s"
  then obtain a b c where s: "s = a @ [64] @ b @ [46] @ c" and ne: "a \<noteq> []" "b \<noteq> []" "c \<noteq> []"
    and ch: "list_all email_char a" "list_all email_char b" "list_all email_char c"
    unfolding email_regex_lang_def by blast
  have dot: "email_char 46" by (simp add: email_char_def is_js_space_def)
  have "64 \<notin> set (b @ 46 # c)" using ch dot email_char_not_at [of "b @ 46 # c"] by simp
  then have sp: "js_split 64 s = [a, b @ 46 # c]"
    using s email_char_not_at [OF ch(1)] by (simp add: js_split_append_sep js_split_no_occ)
  have "list_ex (\<lambda>x. x = 46) (butlast (tl (b @ 46 # c)))"
    using ne by (cases b; cases c rule: rev_cases) (auto simp: butlast_append)
  then show "email_regex_test s" using sp ne ch dot by (simp add: email_regex_test_def)
qed

lemma message_ok_length: "message_ok v \<longleftrightarrow> 10 \<le> length v"
  by (auto simp: message_ok_def)

subsection \<open>The submit handler\<close>

text \<open>C1. When the four fields and the message region exist, submitting always
  returns normally; it schedules the simulated submission (one callback after
  1500 ms) exactly when all four rules hold, and the notice then reads "Sending
  message..." with class success, otherwise "Please fix the errors above." with
  class error.\<close>

theorem submit_handler_outcome:
  assumes "input_value p (js ''name'') = Inr n" "input_value p (js ''email'') = Inr e"
    "input_value p (js ''subject'') = Inr s" "input_value p (js ''message'') = Inr m"
    "form_msg p = Some fm"
  shows "\<exists>p'. submit_handler p = Inr (p', if form_valid n e s m then [(1500, SubmitDone)] else [])
     \<and> form_msg p' = Some \<lparr>msg_text = (if form_valid n e s m then js ''Sending message...''
                                      else js ''Please fix the errors above.''),
                          msg_class = js ''form-message '' @ (if form_valid n e s m then js ''success''
                                      else js ''error''),
                          msg_display = js ''block''\<rparr>"
  using assms
  by (simp add: submit_handler_def validate_all_def submit_reset_def show_form_message_def form_valid_def sending_no_thanks
        success_ne_error Let_def split_beta split: option.split)

lemma find_cong_set: "(\<And>x. x \<in> set xs \<Longrightarrow> P x = Q x) \<Longrightarrow> find P xs = find Q xs"
  by (induction xs) auto

lemma find_input_ids:
  "find_input p i = find (\<lambda>k. map in_id (inputs p) ! k = i) [0..<length (map in_id (inputs p))]"
  unfolding find_input_def length_map by (rule find_cong_set) simp

lemma find_input_cong: "map in_id (inputs q) = map in_id (inputs p) \<Longrightarrow> find_input q i = find_input p i"
  by (simp add: find_input_ids)

lemma find_input_distinct_iff:
  "distinct (map in_id (inputs p)) \<Longrightarrow> k < length (inputs p) \<Longrightarrow>
   find_input p i = Some k \<longleftrightarrow> in_id (inputs p ! k) = i"
  using find_input_Some find_input_distinct by blast

lemma input_value_at:
  "distinct (map in_id (inputs p)) \<Longrightarrow> k < length (inputs p) \<Longrightarrow>
   input_value p (in_id (inputs p ! k)) = Inr (js_trim (in_value (inputs p ! k)))"
  by (simp add: input_value_def find_input_distinct)

lemma border_check_field:
  "k < length (inputs (fst s)) \<Longrightarrow> in_border (inputs (fst (check_field b i m s)) ! k) =
     (if b \<and> find_input (fst s) i = Some k then error_border else in_border (inputs (fst s) ! k))"
  by (simp add: check_field_def nth_inputs_show_field_error)

lemma ids_check_field [simp]: "map in_id (inputs (fst (check_field b i m s))) = map in_id (inputs (fst s))"
  by (simp add: check_field_def)

lemma length_check_field [simp]: "length (inputs (fst (check_field b i m s))) = length (inputs (fst s))"
  by (simp add: check_field_def)

lemma ids_submit_reset [simp]: "map in_id (inputs (submit_reset fm p)) = map in_id (inputs p)"
  by (simp add: submit_reset_def)

lemma inputs_show_form_message [simp]: "inputs (fst (show_form_message m ty p)) = inputs p"
  by (simp add: show_form_message_def split: option.split)

lemma group_errors_show_form_message [simp]: "group_errors (fst (show_form_message m ty p)) = group_errors p"
  by (simp add: show_form_message_def split: option.split)

lemma show_form_message_frame:
  "show_form_message m ty p = (p', ts) \<Longrightarrow> inputs p' = inputs p \<and> group_errors p' = group_errors p"
  by (simp add: show_form_message_def split: option.splits) auto

lemma submit_handler_InrE:
  assumes "submit_handler p = Inr (p', ts)"
  obtains n e s m fm where "input_value p (js ''name'') = Inr n" "input_value p (js ''email'') = Inr e"
    "input_value p (js ''subject'') = Inr s" "input_value p (js ''message'') = Inr m" "form_msg p = Some fm"
    "inputs p' = inputs (fst (validate_all n e s m (submit_reset fm p)))"
    "group_errors p' = group_errors (fst (validate_all n e s m (submit_reset fm p)))"
  using assms
  by (auto simp: submit_handler_def js_bind_def split_beta Let_def split: sum.splits option.splits if_splits
        dest!: show_form_message_frame)
lemma submit_handler_error_notice:
  "submit_handler p = Inr (p', []) \<Longrightarrow>
   \<exists>fm. form_msg p' = Some fm \<and> msg_text fm = js ''Please fix the errors above.''
      \<and> msg_class fm = js ''form-message error'' \<and> msg_display fm = js ''block''"
  by (auto simp: submit_handler_def js_bind_def show_form_message_def validate_all_def submit_reset_def
      split_beta Let_def js_def split: sum.splits option.splits if_splits)

lemma thank_you_includes:
  "js_includes (js ''Thank you! Your message has been sent. I'' @ [39] @ js ''ll get back to you soon.'') (js ''Thank you'')"
  by code_simp

lemma border_validate_all:
  assumes ids: "map in_id (inputs q) = map in_id (inputs p)" and k: "k < length (inputs q)"
  shows "in_border (inputs (fst (validate_all n e s m q)) ! k) =
    (if (\<not> name_ok n \<and> find_input p (js ''name'') = Some k) \<or> (\<not> email_ok e \<and> find_input p (js ''email'') = Some k)
      \<or> (\<not> subject_ok s \<and> find_input p (js ''subject'') = Some k)
      \<or> (\<not> message_ok m \<and> find_input p (js ''message'') = Some k)
     then error_border else in_border (inputs q ! k))"
proof -
  let ?c1 = "check_field (\<not> name_ok n) (js ''name'') (js ''Name is required'') (q, True)"
  let ?c2 = "check_field (\<not> email_ok e) (js ''email'') (js ''Valid email is required'') ?c1"
  let ?c3 = "check_field (\<not> subject_ok s) (js ''subject'') (js ''Subject is required'') ?c2"
  let ?c4 = "check_field (\<not> message_ok m) (js ''message'') (js ''Message must be at least 10 characters'') ?c3"
  have i1: "map in_id (inputs (fst ?c1)) = map in_id (inputs p)" and l1: "k < length (inputs (fst ?c1))"
    using ids k by simp_all
  have i2: "map in_id (inputs (fst ?c2)) = map in_id (inputs p)" and l2: "k < length (inputs (fst ?c2))"
    using i1 l1 by simp_all
  have i3: "map in_id (inputs (fst ?c3)) = map in_id (inputs p)" and l3: "k < length (inputs (fst ?c3))"
    using i2 l2 by simp_all
  have b1: "in_border (inputs (fst ?c1) ! k) =
      (if \<not> name_ok n \<and> find_input p (js ''name'') = Some k then error_border else in_border (inputs q ! k))"
    using k by (simp add: border_check_field find_input_cong [OF ids])
  have b2: "in_border (inputs (fst ?c2) ! k) =
      (if \<not> email_ok e \<and> find_input p (js ''email'') = Some k then error_border else in_border (inputs (fst ?c1) ! k))"
    using l1 by (simp add: border_check_field find_input_cong [OF i1])
  have b3: "in_border (inputs (fst ?c3) ! k) =
      (if \<not> subject_ok s \<and> find_input p (js ''subject'') = Some k then error_border else in_border (inputs (fst ?c2) ! k))"
    using l2 by (simp add: border_check_field find_input_cong [OF i2])
  have b4: "in_border (inputs (fst ?c4) ! k) =
      (if \<not> message_ok m \<and> find_input p (js ''message'') = Some k then error_border else in_border (inputs (fst ?c3) ! k))"
    using l3 by (simp add: border_check_field find_input_cong [OF i3])
  show ?thesis unfolding validate_all_def b4 b3 b2 b1 by simp
qed

text \<open>C2. After a submission (with distinct element ids, as the page contract
  requires) exactly the inputs whose rule fails carry the error border; every other
  input's border is cleared.\<close>

theorem submit_marks_failing_fields:
  assumes ids: "distinct (map in_id (inputs p))" and sub: "submit_handler p = Inr (p', ts)"
    and k: "k < length (inputs p)"
  shows "in_border (inputs p' ! k) =
    (if field_rule (in_id (inputs p ! k)) (js_trim (in_value (inputs p ! k))) then [] else error_border)"
proof -
  obtain n e s m fm where
    vn: "input_value p (js ''name'') = Inr n" and ve: "input_value p (js ''email'') = Inr e" and
    vs: "input_value p (js ''subject'') = Inr s" and vm: "input_value p (js ''message'') = Inr m" and
    inp: "inputs p' = inputs (fst (validate_all n e s m (submit_reset fm p)))"
    using sub by (rule submit_handler_InrE)
  let ?q = "submit_reset fm p" and ?f = "inputs p ! k" and ?v = "js_trim (in_value (inputs p ! k))"
  have iq: "map in_id (inputs ?q) = map in_id (inputs p)" by simp
  have kq: "k < length (inputs ?q)" using k by (simp add: submit_reset_def)
  have r: "in_border (inputs ?q ! k) = []" using k by (simp add: submit_reset_def)
  have b: "in_border (inputs p' ! k) =
    (if (\<not> name_ok n \<and> find_input p (js ''name'') = Some k) \<or> (\<not> email_ok e \<and> find_input p (js ''email'') = Some k)
      \<or> (\<not> subject_ok s \<and> find_input p (js ''subject'') = Some k)
      \<or> (\<not> message_ok m \<and> find_input p (js ''message'') = Some k)
     then error_border else [])"
    by (simp only: inp border_validate_all [OF iq kq] r)
  have fk: "\<And>i. find_input p i = Some k \<longleftrightarrow> in_id ?f = i" using ids k by (rule find_input_distinct_iff)
  have val: "input_value p (in_id ?f) = Inr ?v" using ids k by (rule input_value_at)
  show ?thesis
    unfolding b fk field_rule_def using vn ve vs vm val by auto
qed

text \<open>C4. The submit handler raises exactly when one of the four fields or the message
  region is missing from the page; it raises before changing anything.\<close>

theorem submit_handler_TypeError:
  "submit_handler p = Inl TypeError \<longleftrightarrow>
     list_ex (\<lambda>i. find_input p i = None) [js ''name'', js ''email'', js ''subject'', js ''message'']
     \<or> form_msg p = None"
  by (auto simp: submit_handler_def input_value_def js_bind_def split_beta Let_def
        split: option.splits sum.splits if_splits)

subsection \<open>Revalidation of one field\<close>

lemma validate_field_snd:
  "snd (validate_field k p) = field_rule (in_id (inputs p ! k)) (js_trim (in_value (inputs p ! k)))"
  by (simp add: validate_field_eq Let_def)

lemma error_border_rgb: "error_border = js ''rgb(220, 38, 38)''"
  by (simp add: error_border_def css_color_value_red)

lemma rgb_nonempty: "js ''rgb(220, 38, 38)'' \<noteq> []"
  by (simp add: js_def)

text \<open>C5. Revalidating one field (blur, or input after an error) returns the rule of
  that field (the one the submit handler applies) on its trimmed value, and leaves its
  border reading back as \<^verbatim>\<open>rgb(220, 38, 38)\<close> exactly when that rule fails. So the input listener's string
  comparison (line 258) fires exactly on fields whose last validation failed.\<close>

theorem validate_field_border:
  assumes ids: "distinct (map in_id (inputs p))" and k: "k < length (inputs p)"
  shows "snd (validate_field k p) = field_rule (in_id (inputs p ! k)) (js_trim (in_value (inputs p ! k)))
     \<and> in_border (inputs (fst (validate_field k p)) ! k) =
           (if field_rule (in_id (inputs p ! k)) (js_trim (in_value (inputs p ! k))) then []
            else js ''rgb(220, 38, 38)'')"
proof -
  let ?f = "inputs p ! k"
  let ?p1 = "p\<lparr>inputs := (inputs p)[k := ?f\<lparr>in_border := []\<rparr>]\<rparr>"
  have i1: "map in_id (inputs ?p1) = map in_id (inputs p)"
    using k by (intro nth_equalityI) (auto simp: nth_list_update)
  have k1: "k < length (inputs ?p1)" using k by simp
  have fi: "find_input ?p1 (in_id ?f) = Some k"
    using find_input_cong [OF i1] find_input_distinct [OF ids k refl] by simp
  have "in_border (inputs (fst (validate_field k p)) ! k) =
           (if snd (validate_field k p) then [] else js ''rgb(220, 38, 38)'')"
    using k1 fi by (simp add: validate_field_eq Let_def nth_inputs_show_field_error error_border_rgb)
  then show ?thesis by (simp add: validate_field_snd)
qed

lemma list_all_update_drop1:
  assumes "list_all (\<lambda>es. length es < 2) xs"
  shows "list_all (\<lambda>es. length es < 2) (xs[g := tl (xs ! g) @ [m]])"
proof (cases "g < length xs")
  case True
  then have "length (xs ! g) < 2" using assms by (simp add: list_all_length)
  then have "length (tl (xs ! g) @ [m]) < 2" by simp
  with assms show ?thesis by (auto simp: list_all_iff dest!: set_update_subset_insert [THEN subsetD])
next
  case False
  with assms show ?thesis by (simp add: list_update_beyond)
qed

lemma errs_le_one_show_field_error: "errs_le_one p \<Longrightarrow> errs_le_one (show_field_error i m p)"
  by (simp add: errs_le_one_def group_errors_show_field_error list_all_update_drop1 split: option.split)


lemma validate_field_p1:
  assumes ids: "distinct (map in_id (inputs p))" and k: "k < length (inputs p)"
  defines "p1 \<equiv> p\<lparr>inputs := (inputs p)[k := (inputs p ! k)\<lparr>in_border := []\<rparr>]\<rparr>"
  shows "find_input p1 (in_id (inputs p ! k)) = Some k" and "inputs p1 ! k = (inputs p ! k)\<lparr>in_border := []\<rparr>"
    and "group_errors p1 = group_errors p" and "length (inputs p1) = length (inputs p)"
proof -
  have i1: "map in_id (inputs p1) = map in_id (inputs p)"
    using k unfolding p1_def by (intro nth_equalityI) (auto simp: nth_list_update)
  show "find_input p1 (in_id (inputs p ! k)) = Some k"
    using find_input_cong [OF i1] find_input_distinct [OF ids k refl] by simp
  show "inputs p1 ! k = (inputs p ! k)\<lparr>in_border := []\<rparr>" using k by (simp add: p1_def)
qed (simp_all add: p1_def)

text \<open>C6. Revalidating a field changes the error divs of its own group only, and only
  when the field's rule fails on its trimmed value: a field that now passes keeps the message shown by an earlier
  failure (the stale message of the findings).\<close>

theorem validate_field_errors:
  assumes ids: "distinct (map in_id (inputs p))" and k: "k < length (inputs p)"
  shows "group_errors (fst (validate_field k p)) =
    (if field_rule (in_id (inputs p ! k)) (js_trim (in_value (inputs p ! k))) then group_errors p
     else (group_errors p)[in_group (inputs p ! k) :=
             tl (group_errors p ! in_group (inputs p ! k)) @ [field_message (in_id (inputs p ! k))]])"
  using validate_field_p1 [OF ids k]
  by (simp add: validate_field_eq Let_def group_errors_show_field_error)

text \<open>C7. Revalidating a field leaves every other input unchanged.\<close>

theorem validate_field_other_inputs:
  assumes ids: "distinct (map in_id (inputs p))" and k: "k < length (inputs p)"
    and j: "j < length (inputs p)" "j \<noteq> k"
  shows "inputs (fst (validate_field k p)) ! j = inputs p ! j"
  using validate_field_p1 [OF ids k] j
  by (simp add: validate_field_eq Let_def nth_inputs_show_field_error)

lemma errs_le_one_check_field: "errs_le_one (fst s) \<Longrightarrow> errs_le_one (fst (check_field b i m s))"
  by (simp add: check_field_def errs_le_one_show_field_error)

lemma errs_le_one_validate_all: "errs_le_one q \<Longrightarrow> errs_le_one (fst (validate_all n e s m q))"
  by (simp add: validate_all_def errs_le_one_check_field)

lemma errs_le_one_submit_reset [simp]: "errs_le_one (submit_reset fm p) = errs_le_one p"
  by (simp add: errs_le_one_def submit_reset_def)

lemma errs_le_one_show_form_message [simp]: "errs_le_one (fst (show_form_message m ty p)) = errs_le_one p"
  by (simp add: errs_le_one_def)

lemma errs_le_one_inputs_update [simp]: "errs_le_one (p\<lparr>inputs := xs\<rparr>) = errs_le_one p"
  by (simp add: errs_le_one_def)

lemma errs_le_one_validate_field: "errs_le_one p \<Longrightarrow> errs_le_one (fst (validate_field k p))"
  by (simp add: validate_field_eq Let_def errs_le_one_show_field_error)

lemma errs_le_one_submit_handler:
  "errs_le_one p \<Longrightarrow> submit_handler p = Inr (p', ts) \<Longrightarrow> errs_le_one p'"
  by (erule submit_handler_InrE) (simp add: errs_le_one_def, metis errs_le_one_def errs_le_one_submit_reset errs_le_one_validate_all)

text \<open>C8. Every listener of the form keeps each \<^verbatim>\<open>.form-group\<close> at no more than one
  \<^verbatim>\<open>.field-error\<close> div.\<close>

theorem form_handle_errs_le_one:
  "errs_le_one p \<Longrightarrow> form_handle ev p = Inr (p', ts) \<Longrightarrow> errs_le_one p'"
proof (cases ev)
  case Submit
  then show "errs_le_one p \<Longrightarrow> form_handle ev p = Inr (p', ts) \<Longrightarrow> errs_le_one p'"
    by (simp add: errs_le_one_submit_handler)
next
  case (Blur k)
  then show "errs_le_one p \<Longrightarrow> form_handle ev p = Inr (p', ts) \<Longrightarrow> errs_le_one p'"
    by (auto simp: blur_handler_def errs_le_one_validate_field)
next
  case (Typed k v)
  then show "errs_le_one p \<Longrightarrow> form_handle ev p = Inr (p', ts) \<Longrightarrow> errs_le_one p'"
    by (auto simp: input_handler_def Let_def errs_le_one_validate_field)
qed

subsection \<open>Witnesses\<close>

lemma spec_page_values:
  "input_value (spec_page n e s m) (js ''name'') = Inr (js_trim (js n))"
  "input_value (spec_page n e s m) (js ''email'') = Inr (js_trim (js e))"
  "input_value (spec_page n e s m) (js ''subject'') = Inr (js_trim (js s))"
  "input_value (spec_page n e s m) (js ''message'') = Inr (js_trim (js m))"
  by (simp_all add: input_value_def find_input_def spec_page_def spec_input_def)

theorem submit_handler_outcome_witness:
  "\<exists>p'. submit_handler (spec_page ''Ann'' ''a@b.com'' ''Hi'' ''1234567890'') = Inr (p', [(1500, SubmitDone)])
      \<and> form_msg p' = Some \<lparr>msg_text = js ''Sending message...'',
                              msg_class = js ''form-message '' @ js ''success'', msg_display = js ''block''\<rparr>"
proof -
  have ok: "form_valid (js_trim (js ''Ann'')) (js_trim (js ''a@b.com'')) (js_trim (js ''Hi''))
              (js_trim (js ''1234567890''))" by code_simp
  have fm: "form_msg (spec_page ''Ann'' ''a@b.com'' ''Hi'' ''1234567890'') =
      Some \<lparr>msg_text = [], msg_class = js ''form-message'', msg_display = []\<rparr>"
    by (simp add: spec_page_def)
  show ?thesis
    using submit_handler_outcome [OF spec_page_values fm] ok by simp
qed

theorem submit_marks_failing_fields_witness:
  "\<exists>p' ts. submit_handler (spec_page '''' ''a@b.com'' ''Hi'' ''1234567890'') = Inr (p', ts)
      \<and> in_border (inputs p' ! 0) = error_border \<and> in_border (inputs p' ! 3) = []"
proof -
  let ?P = "spec_page '''' ''a@b.com'' ''Hi'' ''1234567890''"
  have "\<not> isl (submit_handler ?P)" by code_simp
  then obtain p' ts where sub: "submit_handler ?P = Inr (p', ts)" by (cases "submit_handler ?P") auto
  have ids: "distinct (map in_id (inputs ?P))" by code_simp
  have l0: "0 < length (inputs ?P)" and l3: "3 < length (inputs ?P)" by (simp_all add: spec_page_def)
  have r0: "\<not> field_rule (in_id (inputs ?P ! 0)) (js_trim (in_value (inputs ?P ! 0)))" by code_simp
  have r3: "field_rule (in_id (inputs ?P ! 3)) (js_trim (in_value (inputs ?P ! 3)))" by code_simp
  show ?thesis
    using sub submit_marks_failing_fields [OF ids sub l0] submit_marks_failing_fields [OF ids sub l3] r0 r3
    by auto
qed

theorem validate_field_border_witness:
  "\<not> snd (validate_field 0 (spec_page '''' ''a@b.com'' ''Hi'' ''1234567890''))
   \<and> in_border (inputs (fst (validate_field 0 (spec_page '''' ''a@b.com'' ''Hi'' ''1234567890''))) ! 0)
       = js ''rgb(220, 38, 38)''"
proof -
  let ?P = "spec_page '''' ''a@b.com'' ''Hi'' ''1234567890''"
  have ids: "distinct (map in_id (inputs ?P))" by code_simp
  have l0: "0 < length (inputs ?P)" by (simp add: spec_page_def)
  have r: "\<not> field_rule (in_id (inputs ?P ! 0)) (js_trim (in_value (inputs ?P ! 0)))" by code_simp
  show ?thesis using validate_field_border [OF ids l0] r by simp
qed

theorem validate_field_errors_witness:
  "snd (validate_field 0 ((spec_page ''Ann'' ''a@b.com'' ''Hi'' ''1234567890'')
          \<lparr>group_errors := [[js ''Name is required''], [], [], []]\<rparr>))
   \<and> group_errors (fst (validate_field 0 ((spec_page ''Ann'' ''a@b.com'' ''Hi'' ''1234567890'')
          \<lparr>group_errors := [[js ''Name is required''], [], [], []]\<rparr>)))
       = [[js ''Name is required''], [], [], []]"
proof -
  let ?P = "(spec_page ''Ann'' ''a@b.com'' ''Hi'' ''1234567890'')
              \<lparr>group_errors := [[js ''Name is required''], [], [], []]\<rparr>"
  have ids: "distinct (map in_id (inputs ?P))" by code_simp
  have l0: "0 < length (inputs ?P)" by (simp add: spec_page_def)
  have r: "field_rule (in_id (inputs ?P ! 0)) (js_trim (in_value (inputs ?P ! 0)))" by code_simp
  have v: "snd (validate_field 0 ?P)" by code_simp
  show ?thesis using validate_field_errors [OF ids l0] r v by simp
qed

theorem validate_field_other_inputs_witness:
  "inputs (fst (validate_field 0 (spec_page '''' ''a@b.com'' ''Hi'' ''1234567890''))) ! 1
     = inputs (spec_page '''' ''a@b.com'' ''Hi'' ''1234567890'') ! 1"
proof -
  let ?P = "spec_page '''' ''a@b.com'' ''Hi'' ''1234567890''"
  have ids: "distinct (map in_id (inputs ?P))" by code_simp
  have l: "0 < length (inputs ?P)" "1 < length (inputs ?P)" by (simp_all add: spec_page_def)
  show ?thesis using validate_field_other_inputs [OF ids l(1) l(2)] by simp
qed

theorem form_handle_errs_le_one_witness:
  "\<exists>p' ts. form_handle Submit (spec_page '''' ''a@b.com'' ''Hi'' ''1234567890'') = Inr (p', ts)
     \<and> errs_le_one p'"
proof -
  let ?P = "spec_page '''' ''a@b.com'' ''Hi'' ''1234567890''"
  have "\<not> isl (form_handle Submit ?P)" by code_simp
  then obtain p' ts where h: "form_handle Submit ?P = Inr (p', ts)" by (cases "form_handle Submit ?P") auto
  have inv: "errs_le_one ?P" by code_simp
  show ?thesis using form_handle_errs_le_one [OF inv h] h by blast
qed

subsection \<open>The examples of spec section 8\<close>

text \<open>The spec lists name = "", email = "a@b.com", subject = "Hi" and a message of
  exactly ten characters as a valid submission. The code rejects it: the name rule
  fails, no submission is scheduled, and the notice asks to fix the errors.\<close>

lemma spec_example_empty_name_rejected:
  "(case submit_handler (spec_page '''' ''a@b.com'' ''Hi'' ''1234567890'') of
      Inr (p', ts) \<Rightarrow> ts = []
        \<and> form_msg p' = Some \<lparr>msg_text = js ''Please fix the errors above.'',
                               msg_class = js ''form-message error'', msg_display = js ''block''\<rparr>
        \<and> group_errors p' = [[js ''Name is required''], [], [], []]
    | Inl _ \<Rightarrow> False)"
  by code_simp

end
