(* ===== verification/Theme.thy ===== *)
theory Theme
  imports JS_Prelude
begin

text \<open>
  The dark-mode controller of \<^verbatim>\<open>src/js/main.js\<close> (lines 61--103): the load-time
  read of the stored preference and the click listener of \<^verbatim>\<open>#theme-toggle\<close>. The
  state is the body's class list, the class list of the optional \<^verbatim>\<open>#theme-icon\<close>,
  the \<^verbatim>\<open>localStorage\<close> map, and whether the toggle button exists (the listener is
  only registered when it does). The branches follow the code's, including the two
  copies of the storage writes for a page with and without the icon.
\<close>

section \<open>State and operations\<close>

record theme_page =
  body_classes :: class_list              \<comment> \<open>\<^verbatim>\<open>document.body.classList\<close>\<close>
  theme_icon :: "class_list option"       \<comment> \<open>\<^verbatim>\<open>#theme-icon\<close>, if present\<close>
  local_storage :: "jstr \<Rightarrow> jstr option"  \<comment> \<open>\<^verbatim>\<open>localStorage\<close>\<close>
  toggle_btn :: bool                      \<comment> \<open>\<^verbatim>\<open>#theme-toggle\<close> exists\<close>

text \<open>Lines 67--78, run once when the script loads.\<close>

definition theme_load :: "theme_page \<Rightarrow> theme_page" where
  "theme_load p =
     (if local_storage p (js ''theme'') = Some (js ''dark'') then
        (let p1 = p\<lparr>body_classes := cl_add (js ''dark'') (body_classes p)\<rparr> in
         case theme_icon p of
           None \<Rightarrow> p1
         | Some ic \<Rightarrow> p1\<lparr>theme_icon := Some (cl_add (js ''fa-sun'') (cl_remove (js ''fa-moon'') ic))\<rparr>)
      else
        (case theme_icon p of
           None \<Rightarrow> p
         | Some ic \<Rightarrow> p\<lparr>theme_icon := Some (cl_add (js ''fa-moon'') (cl_remove (js ''fa-sun'') ic))\<rparr>))"

text \<open>The click listener, lines 82--102.\<close>

definition theme_toggle :: "theme_page \<Rightarrow> theme_page" where
  "theme_toggle p =
     (let b = cl_toggle (js ''dark'') (body_classes p); p1 = p\<lparr>body_classes := b\<rparr> in
      case theme_icon p of
        Some ic \<Rightarrow>
          (if js ''dark'' \<in> set b then
             p1\<lparr>local_storage := (local_storage p)(js ''theme'' \<mapsto> js ''dark''),
                theme_icon := Some (cl_add (js ''fa-sun'') (cl_remove (js ''fa-moon'') ic))\<rparr>
           else
             p1\<lparr>local_storage := (local_storage p)(js ''theme'' \<mapsto> js ''light''),
                theme_icon := Some (cl_add (js ''fa-moon'') (cl_remove (js ''fa-sun'') ic))\<rparr>)
      | None \<Rightarrow>
          (if js ''dark'' \<in> set b then p1\<lparr>local_storage := (local_storage p)(js ''theme'' \<mapsto> js ''dark'')\<rparr>
           else p1\<lparr>local_storage := (local_storage p)(js ''theme'' \<mapsto> js ''light'')\<rparr>))"

text \<open>A click on the page: the listener runs only if it was registered (line 81).\<close>

definition theme_click :: "theme_page \<Rightarrow> theme_page" where
  "theme_click p = (if toggle_btn p then theme_toggle p else p)"

section \<open>Properties\<close>

text \<open>The mode the page shows, and the agreement of the icon with it: the sun icon
  in dark mode, the moon icon in light mode.\<close>

definition is_dark :: "theme_page \<Rightarrow> bool" where
  "is_dark p \<longleftrightarrow> js ''dark'' \<in> set (body_classes p)"

definition icon_consistent :: "theme_page \<Rightarrow> bool" where
  "icon_consistent p \<longleftrightarrow>
     (case theme_icon p of
        None \<Rightarrow> True
      | Some ic \<Rightarrow> (js ''fa-sun'' \<in> set ic \<longleftrightarrow> is_dark p) \<and> (js ''fa-moon'' \<in> set ic \<longleftrightarrow> \<not> is_dark p))"

definition stored_mode :: "bool \<Rightarrow> jstr" where
  "stored_mode d = (if d then js ''dark'' else js ''light'')"

section \<open>Lemmas\<close>

lemma js_dark_light [simp]: "js ''dark'' \<noteq> js ''light''" "js ''light'' \<noteq> js ''dark''" "js ''fa-sun'' \<noteq> js ''fa-moon''" "js ''fa-moon'' \<noteq> js ''fa-sun''"
  by (simp_all add: js_def)

lemma is_dark_toggle [simp]: "is_dark (theme_toggle p) \<longleftrightarrow> \<not> is_dark p"
  by (simp add: theme_toggle_def is_dark_def Let_def split: option.split)

lemma body_classes_toggle: "body_classes (theme_toggle p) = cl_toggle (js ''dark'') (body_classes p)"
  by (simp add: theme_toggle_def Let_def split: option.split)

text \<open>C9. After every click of the toggle, the stored preference is the mode the page
  now shows: "dark" in dark mode, "light" otherwise.\<close>

theorem theme_toggle_persists:
  "local_storage (theme_toggle p) (js ''theme'') = Some (stored_mode (is_dark (theme_toggle p)))"
  by (simp add: theme_toggle_def stored_mode_def is_dark_def Let_def split: option.split)

text \<open>C10. Two clicks restore the body's classes (as a set) and store the original
  mode: toggle(toggle(m)) = m.\<close>

theorem theme_toggle_twice:
  "set (body_classes (theme_toggle (theme_toggle p))) = set (body_classes p)
   \<and> local_storage (theme_toggle (theme_toggle p)) (js ''theme'') = Some (stored_mode (is_dark p))"
proof
  show "set (body_classes (theme_toggle (theme_toggle p))) = set (body_classes p)"
    by (auto simp: body_classes_toggle set_cl_toggle)
  show "local_storage (theme_toggle (theme_toggle p)) (js ''theme'') = Some (stored_mode (is_dark p))"
    using theme_toggle_persists [of "theme_toggle p"] by simp
qed

text \<open>C11. After a click the icon always agrees with the mode (sun in dark mode, moon in
  light mode), whatever it showed before.\<close>

theorem theme_toggle_icon_consistent: "icon_consistent (theme_toggle p)"
  by (auto simp: theme_toggle_def icon_consistent_def is_dark_def Let_def split: option.split)

text \<open>C12. At load the icon agrees with the mode, provided the stored preference is dark
  or the page's markup does not already put the body in dark mode.\<close>

theorem theme_load_icon_consistent:
  "local_storage p (js ''theme'') = Some (js ''dark'') \<or> \<not> is_dark p \<Longrightarrow> icon_consistent (theme_load p)"
  by (auto simp: theme_load_def icon_consistent_def is_dark_def Let_def split: option.split)

text \<open>C13. The mode and the stored preference after a click do not depend on whether
  the icon element exists: the two copies of the storage code agree.\<close>

theorem theme_toggle_without_icon:
  "local_storage (theme_toggle p) = local_storage (theme_toggle (p\<lparr>theme_icon := None\<rparr>))
   \<and> body_classes (theme_toggle p) = body_classes (theme_toggle (p\<lparr>theme_icon := None\<rparr>))"
  by (simp add: theme_toggle_def Let_def split: option.split)

text \<open>C14. Round trip through storage: reloading a light page with the storage a click
  left behind shows the mode that click produced.\<close>

theorem theme_reload_restores:
  "\<not> is_dark q \<Longrightarrow> local_storage q = local_storage (theme_toggle p) \<Longrightarrow>
   is_dark (theme_load q) = is_dark (theme_toggle p)"
  using theme_toggle_persists [of p]
  by (auto simp: theme_load_def is_dark_def stored_mode_def Let_def split: option.split if_splits)

text \<open>C15. Without a stored "dark" preference, load leaves the body's classes as the
  markup wrote them: it never removes a \<^verbatim>\<open>dark\<close> class. With such a class and the
  icon present, the page then shows dark mode with the moon icon.\<close>

theorem theme_load_keeps_html_dark:
  assumes "local_storage p (js ''theme'') \<noteq> Some (js ''dark'')"
  shows "body_classes (theme_load p) = body_classes p
     \<and> (is_dark p \<and> theme_icon p \<noteq> None \<longrightarrow> \<not> icon_consistent (theme_load p))"
  using assms by (auto simp: theme_load_def icon_consistent_def is_dark_def split: option.split)

subsection \<open>Witnesses\<close>

theorem theme_load_icon_consistent_witness:
  "icon_consistent (theme_load \<lparr>body_classes = [], theme_icon = Some [js ''fa-moon''],
      local_storage = Map.empty(js ''theme'' \<mapsto> js ''dark''), toggle_btn = True\<rparr>)"
  by (rule theme_load_icon_consistent) simp

theorem theme_reload_restores_witness:
  "is_dark (theme_load \<lparr>body_classes = [], theme_icon = Some [],
      local_storage = local_storage (theme_toggle \<lparr>body_classes = [], theme_icon = None,
                                     local_storage = Map.empty, toggle_btn = True\<rparr>),
      toggle_btn = True\<rparr>)"
proof -
  let ?p = "\<lparr>body_classes = [], theme_icon = None, local_storage = Map.empty, toggle_btn = True\<rparr>"
  let ?q = "\<lparr>body_classes = [], theme_icon = Some [], local_storage = local_storage (theme_toggle ?p),
             toggle_btn = True\<rparr>"
  have "\<not> is_dark ?q" by (simp add: is_dark_def)
  then have "is_dark (theme_load ?q) = is_dark (theme_toggle ?p)" by (rule theme_reload_restores) simp
  moreover have "\<not> is_dark ?p" by (simp add: is_dark_def)
  then have "is_dark (theme_toggle ?p)" by simp
  ultimately show ?thesis by simp
qed

theorem theme_load_keeps_html_dark_witness:
  "body_classes (theme_load \<lparr>body_classes = [js ''dark''], theme_icon = Some [],
                               local_storage = Map.empty, toggle_btn = True\<rparr>) = [js ''dark'']
   \<and> \<not> icon_consistent (theme_load \<lparr>body_classes = [js ''dark''], theme_icon = Some [],
                                   local_storage = Map.empty, toggle_btn = True\<rparr>)"
  using theme_load_keeps_html_dark [of "\<lparr>body_classes = [js ''dark''], theme_icon = Some [],
                                   local_storage = Map.empty, toggle_btn = True\<rparr>"]
  by (simp add: is_dark_def)

end
