(* ===== verification/Nav.thy ===== *)
theory Nav
  imports JS_Prelude
begin

text \<open>
  The link-level behaviour of \<^verbatim>\<open>src/js/main.js\<close>: marking the navigation link of the
  current page (lines 1--10), smooth scrolling for in-page anchors (lines 167--182),
  and the fade before leaving the page (lines 389--398). A link is its \<^verbatim>\<open>href\<close>
  attribute (absent attributes read as \<^verbatim>\<open>null\<close>) and its class list.
\<close>

section \<open>Links\<close>

record nav_link =
  link_href :: "jstr option"     \<comment> \<open>\<^verbatim>\<open>link.getAttribute("href")\<close>\<close>
  link_classes :: class_list     \<comment> \<open>\<^verbatim>\<open>link.classList\<close>\<close>

section \<open>Highlighting the current page\<close>

text \<open>Line 2: the last segment of the path, or \<^verbatim>\<open>index.html\<close> when it is empty
  (\<^verbatim>\<open>"".split("/")\<close> has one element, so \<^verbatim>\<open>pop()\<close> always returns a string).\<close>

definition current_page :: "jstr \<Rightarrow> jstr" where
  "current_page path = (let seg = last (js_split 47 path) in if seg = [] then js ''index.html'' else seg)"

text \<open>Lines 5--10: every link whose \<^verbatim>\<open>href\<close> is the current page gets the class
  \<^verbatim>\<open>active\<close>.\<close>

definition highlight_link :: "jstr \<Rightarrow> nav_link \<Rightarrow> nav_link" where
  "highlight_link cur l =
     (if link_href l = Some cur then l\<lparr>link_classes := cl_add (js ''active'') (link_classes l)\<rparr> else l)"

definition highlight_nav :: "jstr \<Rightarrow> nav_link list \<Rightarrow> nav_link list" where
  "highlight_nav path links = map (highlight_link (current_page path)) links"

section \<open>In-page anchors\<close>

text \<open>What a click on a link ends in: the browser's default navigation, or the default
  prevented and the element with the given id scrolled into view.\<close>

datatype click_outcome = Follow | ScrollTo jstr

text \<open>\<^verbatim>\<open>document.querySelector(href)\<close> for \<^verbatim>\<open>href = "#" + f\<close>, following CSS
  Syntax: \<^verbatim>\<open>#\<close> followed by name code points is a hash token, an id selector only
  when those code points start an identifier (\<open>starts_id\<close>: a letter, \<^verbatim>\<open>_\<close>, a
  non-ASCII unit or an escape, or \<^verbatim>\<open>-\<close> followed by one of these or by \<^verbatim>\<open>-\<close>).
  Otherwise (\<^verbatim>\<open>#1intro\<close>, \<^verbatim>\<open>#-1\<close>, \<^verbatim>\<open>#.a\<close>) the selector is invalid and
  \<^verbatim>\<open>querySelector\<close> throws a SyntaxError. A fragment made of name code points only is
  a plain id selector and finds the element with that id, if any. Every other
  fragment (escapes, compound and complex selectors such as \<^verbatim>\<open>#a.b\<close> or
  \<^verbatim>\<open>#a:hover\<close>) is outside the model: the result is \<open>None\<close>.\<close>

definition css_name_char :: "16 word \<Rightarrow> bool" where
  "css_name_char c \<longleftrightarrow>
     (65 \<le> c \<and> c \<le> 90) \<or> (97 \<le> c \<and> c \<le> 122) \<or> (48 \<le> c \<and> c \<le> 57) \<or> c = 95 \<or> c = 45 \<or> 128 \<le> c"

definition css_ident_start :: "16 word \<Rightarrow> bool" where
  "css_ident_start c \<longleftrightarrow> (65 \<le> c \<and> c \<le> 90) \<or> (97 \<le> c \<and> c \<le> 122) \<or> c = 95 \<or> 128 \<le> c"

definition starts_id :: "jstr \<Rightarrow> bool" where
  "starts_id f =
     (case f of
        [] \<Rightarrow> False
      | c # r \<Rightarrow>
          if c = 92 then True
          else if c = 45 then (case r of [] \<Rightarrow> False | d # _ \<Rightarrow> css_ident_start d \<or> d = 45 \<or> d = 92)
          else css_ident_start c)"

definition css_ident :: "jstr \<Rightarrow> bool" where
  "css_ident f \<longleftrightarrow> starts_id f \<and> list_all css_name_char f"

definition query_id_selector :: "jstr list \<Rightarrow> jstr \<Rightarrow> (js_error + jstr option) option" where
  "query_id_selector ids href =
     (let f = tl href in
      if \<not> starts_id f then Some (Inl SyntaxError)
      else if list_all css_name_char f then Some (Inr (if f \<in> set ids then Some f else None))
      else None)"

text \<open>The click listener of lines 169--181, for a link whose \<^verbatim>\<open>href\<close> began with
  \<^verbatim>\<open>#\<close> when the script ran; \<open>ids\<close> are the ids present in the document, and
  \<open>None\<close> stands for a selector outside the model.\<close>

definition anchor_click :: "jstr list \<Rightarrow> jstr \<Rightarrow> (js_error + click_outcome) option" where
  "anchor_click ids href =
     (if href \<noteq> js ''#'' \<and> 1 < length href then
        (case query_id_selector ids href of
           None \<Rightarrow> None
         | Some (Inl e) \<Rightarrow> Some (Inl e)
         | Some (Inr None) \<Rightarrow> Some (Inr Follow)
         | Some (Inr (Some t)) \<Rightarrow> Some (Inr (ScrollTo t)))
      else Some (Inr Follow))"

section \<open>Page transitions\<close>

text \<open>Lines 391--397 for the links of \<^verbatim>\<open>nav a, .btn\<close>: a link that leaves for another
  page of the site fades the body to opacity 0.9.\<close>

definition leaves_site_page :: "jstr option \<Rightarrow> bool" where
  "leaves_site_page href =
     (case href of
        None \<Rightarrow> False
      | Some h \<Rightarrow> h \<noteq> [] \<and> \<not> starts_with h (js ''#'') \<and> \<not> starts_with h (js ''mailto:'')
                 \<and> \<not> starts_with h (js ''http''))"

definition transition_click :: "jstr option \<Rightarrow> jstr \<Rightarrow> jstr" where
  "transition_click href opacity = (if leaves_site_page href then js ''0.9'' else opacity)"

section \<open>Properties\<close>

definition is_active :: "nav_link \<Rightarrow> bool" where
  "is_active l \<longleftrightarrow> js ''active'' \<in> set (link_classes l)"

section \<open>Lemmas\<close>

lemma js_split_length_ge2: "d \<in> set s \<Longrightarrow> 2 \<le> length (js_split d s)"
proof (induction s)
  case Nil then show ?case by simp
next
  case (Cons c s)
  obtain w ws where ws: "js_split d s = w # ws" using js_split_ne by (metis list.exhaust)
  show ?case
  proof (cases "c = d")
    case True with ws show ?thesis by (simp add: Let_def)
  next
    case False
    with Cons ws show ?thesis by (simp add: Let_def)
  qed
qed

lemma last_js_split_Cons:
  "d \<in> set s \<Longrightarrow> last (js_split d (c # s)) = last (js_split d s)"
proof -
  assume "d \<in> set s"
  then have two: "2 \<le> length (js_split d s)" by (rule js_split_length_ge2)
  then obtain w v ws where ws: "js_split d s = w # v # ws"
    by (metis One_nat_def Suc_1 Suc_le_length_iff)
  then show ?thesis by (simp add: Let_def)
qed

lemma last_js_split_sep: "last (js_split d (d # s)) = last (js_split d s)"
  using js_split_ne [of d s] by (simp add: Let_def)

lemma last_js_split_append_sep: "last (js_split d (a @ d # s)) = last (js_split d s)"
proof (induction a)
  case Nil then show ?case by (simp only: append_Nil last_js_split_sep)
next
  case (Cons c a)
  have "d \<in> set (a @ d # s)" by simp
  then have "last (js_split d (c # a @ d # s)) = last (js_split d (a @ d # s))"
    by (rule last_js_split_Cons)
  then show ?case using Cons.IH by simp
qed

lemma distinct_filter_eq_le1: "distinct xs \<Longrightarrow> length (filter (\<lambda>y. y = x) xs) \<le> 1"
  by (induction xs) (auto simp: filter_empty_conv)

text \<open>C17. Round trip with the path: for a path \<open>dir/seg\<close> whose last segment is
  non-empty, the current page is that segment.\<close>

theorem current_page_last_segment:
  "47 \<notin> set seg \<Longrightarrow> seg \<noteq> [] \<Longrightarrow> current_page (dir @ 47 # seg) = seg"
  by (simp add: current_page_def last_js_split_append_sep js_split_no_occ)

theorem current_page_trailing_slash: "current_page (dir @ [47]) = js ''index.html''"
  by (simp add: current_page_def last_js_split_append_sep)

text \<open>C16. The current page is never empty and never contains a slash.\<close>

theorem current_page_segment:
  "current_page path \<noteq> [] \<and> 47 \<notin> set (current_page path)"
proof -
  have "last (js_split 47 path) \<in> set (js_split 47 path)" using js_split_ne by simp
  then have "47 \<notin> set (last (js_split 47 path))" by (rule js_split_no_sep)
  then show ?thesis by (auto simp: current_page_def Let_def js_def)
qed

lemma is_active_highlight_link:
  "is_active (highlight_link cur l) \<longleftrightarrow> is_active l \<or> link_href l = Some cur"
  by (auto simp: highlight_link_def is_active_def)

text \<open>C18. With distinct \<^verbatim>\<open>href\<close>s and no link marked by the markup, at most one
  link is active after the pass.\<close>

theorem highlight_nav_at_most_one:
  assumes "distinct (map link_href links)" "\<not> list_ex is_active links"
  shows "length (filter is_active (highlight_nav path links)) \<le> 1"
proof -
  let ?c = "Some (current_page path)"
  have "filter is_active (highlight_nav path links) = map (highlight_link (current_page path))
          (filter (\<lambda>l. link_href l = ?c) links)"
    using assms(2) by (induction links) (auto simp: highlight_nav_def is_active_highlight_link)
  moreover have "length (filter (\<lambda>l. link_href l = ?c) links) \<le> 1"
  proof -
    have "length (filter (\<lambda>l. link_href l = ?c) links) = length (filter (\<lambda>h. h = ?c) (map link_href links))"
      by (simp add: filter_map comp_def)
    also have "\<dots> \<le> 1" by (rule distinct_filter_eq_le1 [OF assms(1)])
    finally show ?thesis .
  qed
  ultimately show ?thesis by simp
qed

lemma css_ident_long: "css_ident f \<Longrightarrow> 35 # f \<noteq> js ''#'' \<and> 1 < length (35 # f)"
  by (cases f) (auto simp: css_ident_def starts_id_def js_def)

lemma not_starts_id_long: "f \<noteq> [] \<Longrightarrow> 35 # f \<noteq> js ''#'' \<and> 1 < length (35 # f)"
  by (cases f) (auto simp: js_def)

text \<open>C19. A click on an in-page anchor \<^verbatim>\<open>#f\<close> whose fragment is a plain
  identifier prevents the navigation and scrolls to the element with id \<open>f\<close> when
  there is one, and otherwise lets the browser follow the link.\<close>

theorem anchor_click_plain_fragment:
  "css_ident f \<Longrightarrow> anchor_click ids (35 # f) = Some (Inr (if f \<in> set ids then ScrollTo f else Follow))"
  using css_ident_long [of f] by (simp add: anchor_click_def query_id_selector_def css_ident_def)

text \<open>C20. An anchor whose fragment does not start an identifier (a digit first, as in
  \<^verbatim>\<open>#1intro\<close>, a hyphen and a digit, or punctuation) makes \<^verbatim>\<open>querySelector\<close>
  throw, so the listener raises instead of scrolling, whether or not an element has
  that id.\<close>

theorem anchor_click_not_id_start:
  "f \<noteq> [] \<Longrightarrow> \<not> starts_id f \<Longrightarrow> anchor_click ids (35 # f) = Some (Inl SyntaxError)"
  using not_starts_id_long [of f] by (simp add: anchor_click_def query_id_selector_def)

theorem transition_click_tel:
  "transition_click (Some (js ''tel:5551234'')) (js ''1'') = js ''0.9''"
  by (simp add: transition_click_def leaves_site_page_def starts_with_def js_def)
subsection \<open>Witnesses\<close>

theorem current_page_last_segment_witness:
  "current_page (js ''/site/about.html'') = js ''about.html''"
proof -
  have "js ''/site/about.html'' = js ''/site'' @ 47 # js ''about.html''" by (simp add: js_def)
  moreover have "current_page (js ''/site'' @ 47 # js ''about.html'') = js ''about.html''"
    by (rule current_page_last_segment) (simp_all add: js_def)
  ultimately show ?thesis by simp
qed

theorem highlight_nav_at_most_one_witness:
  "length (filter is_active (highlight_nav (js ''/about.html'')
      [\<lparr>link_href = Some (js ''index.html''), link_classes = []\<rparr>,
       \<lparr>link_href = Some (js ''about.html''), link_classes = []\<rparr>])) \<le> 1"
  by (rule highlight_nav_at_most_one) (simp_all add: js_def is_active_def)

theorem anchor_click_plain_fragment_witness:
  "anchor_click [js ''about''] (js ''#about'') = Some (Inr (ScrollTo (js ''about'')))"
proof -
  have "css_ident (js ''about'')" by code_simp
  from anchor_click_plain_fragment [OF this, of "[js ''about'']"] show ?thesis by (simp add: js_def)
qed

theorem anchor_click_not_id_start_witness:
  "anchor_click [js ''1intro''] (js ''#1intro'') = Some (Inl SyntaxError)"
proof -
  have "js ''1intro'' \<noteq> []" "\<not> starts_id (js ''1intro'')" by code_simp+
  from anchor_click_not_id_start [OF this, of "[js ''1intro'']"] show ?thesis by (simp add: js_def)
qed

end
