(* ===== verification/Scroll.thy ===== *)
theory Scroll
  imports JS_Prelude
begin

text \<open>
  The two window \<^verbatim>\<open>scroll\<close> listeners of \<^verbatim>\<open>src/js/main.js\<close>: the sticky header
  (lines 12--26) and the parallax offset of \<^verbatim>\<open>.hero-background\<close> (lines 340--348).
  \<^verbatim>\<open>window.pageYOffset\<close> is a real number. The parallax listener writes
  \<^verbatim>\<open>translateY(${scrolled * 0.5}px)\<close>; the model keeps the number inside that string.
  Both listeners run on every scroll event, in the order they were registered, and an
  exception in the first does not stop the second.
\<close>

section \<open>State and listeners\<close>

record scroll_page =
  header_classes :: "class_list option"  \<comment> \<open>\<^verbatim>\<open>document.querySelector("header")\<close>\<close>
  last_scroll :: real                    \<comment> \<open>\<^verbatim>\<open>lastScroll\<close>\<close>
  hero_offset :: "real option option"
    \<comment> \<open>\<^verbatim>\<open>.hero-background\<close>: absent, present without a transform, or translated by \<open>y\<close> px\<close>

text \<open>Lines 16--26. A page without a header makes the listener throw at line 20 or 22,
  before \<^verbatim>\<open>lastScroll\<close> is written.\<close>

definition sticky_header :: "real \<Rightarrow> scroll_page \<Rightarrow> js_error + scroll_page" where
  "sticky_header y s =
     (case header_classes s of
        None \<Rightarrow> Inl TypeError
      | Some c \<Rightarrow>
          Inr (s\<lparr>header_classes := Some (if y > 50 then cl_add (js ''scrolled'') c
                                        else cl_remove (js ''scrolled'') c),
                 last_scroll := y\<rparr>))"

text \<open>Lines 341--348.\<close>

definition parallax :: "real \<Rightarrow> scroll_page \<Rightarrow> scroll_page" where
  "parallax y s =
     (case hero_offset s of None \<Rightarrow> s | Some _ \<Rightarrow> s\<lparr>hero_offset := Some (Some (y * 0.5))\<rparr>)"

text \<open>One scroll event: both listeners, in registration order; a listener that throws
  leaves the state as it found it.\<close>

definition scroll_event :: "real \<Rightarrow> scroll_page \<Rightarrow> scroll_page" where
  "scroll_event y s =
     parallax y (case sticky_header y s of Inl _ \<Rightarrow> s | Inr s' \<Rightarrow> s')"

fun scroll_run :: "real list \<Rightarrow> scroll_page \<Rightarrow> scroll_page" where
  "scroll_run [] s = s"
| "scroll_run (y # ys) s = scroll_run ys (scroll_event y s)"

section \<open>Lemmas\<close>

lemma header_scroll_event:
  "header_classes (scroll_event y s) =
     map_option (\<lambda>c. if y > 50 then cl_add (js ''scrolled'') c else cl_remove (js ''scrolled'') c)
       (header_classes s)"
  by (auto simp: scroll_event_def sticky_header_def parallax_def split: option.split)

lemma hero_scroll_event:
  "hero_offset (scroll_event y s) = map_option (\<lambda>_. Some (y * 0.5)) (hero_offset s)"
  by (auto simp: scroll_event_def sticky_header_def parallax_def split: option.split)

lemma hero_scroll_run:
  "ys \<noteq> [] \<Longrightarrow> hero_offset (scroll_run ys s) = map_option (\<lambda>_. Some (last ys * 0.5)) (hero_offset s)"
proof (induction ys arbitrary: s)
  case Nil then show ?case by simp
next
  case (Cons y ys)
  show ?case
  proof (cases "ys = []")
    case True then show ?thesis by (simp add: hero_scroll_event)
  next
    case False
    with Cons.IH show ?thesis by (simp add: hero_scroll_event option.map_comp comp_def)
  qed
qed

lemma header_scroll_run:
  "ys \<noteq> [] \<Longrightarrow> header_classes s = Some c \<Longrightarrow>
   \<exists>c'. header_classes (scroll_run ys s) = Some c'
      \<and> set c' = (if last ys > 50 then insert (js ''scrolled'') (set c) else set c - {js ''scrolled''})"
proof (induction ys arbitrary: s c)
  case Nil then show ?case by simp
next
  case (Cons y ys)
  let ?c1 = "if y > 50 then cl_add (js ''scrolled'') c else cl_remove (js ''scrolled'') c"
  have h1: "header_classes (scroll_event y s) = Some ?c1" using Cons.prems by (simp add: header_scroll_event)
  show ?case
  proof (cases "ys = []")
    case True then show ?thesis using h1 by auto
  next
    case False
    from Cons.IH [OF False h1] obtain c' where
      "header_classes (scroll_run ys (scroll_event y s)) = Some c'"
      "set c' = (if last ys > 50 then insert (js ''scrolled'') (set ?c1) else set ?c1 - {js ''scrolled''})"
      by blast
    with False show ?thesis by (auto split: if_splits)
  qed
qed

text \<open>C21. After any non-empty sequence of scroll events on a page with a header, the
  header carries \<^verbatim>\<open>scrolled\<close> exactly when the latest position is above 50 pixels,
  whatever came before; its other classes are untouched.\<close>

theorem sticky_header_latest_position:
  assumes "ys \<noteq> []" "header_classes s = Some c"
  shows "\<exists>c'. header_classes (scroll_run ys s) = Some c'
     \<and> (js ''scrolled'' \<in> set c' \<longleftrightarrow> last ys > 50)
     \<and> set c' - {js ''scrolled''} = set c - {js ''scrolled''}"
  using header_scroll_run [OF assms] by auto

text \<open>C22. After a non-empty sequence of scroll events the hero background is translated
  by half the latest position, also on a page without a header, where the first
  listener throws on every event.\<close>

theorem parallax_without_header:
  assumes "ys \<noteq> []" "hero_offset s = Some h"
  shows "hero_offset (scroll_run ys s) = Some (Some (last ys / 2))"
  using hero_scroll_run [OF assms(1), of s] assms(2) by simp

subsection \<open>Witnesses\<close>

theorem sticky_header_latest_position_witness:
  "\<exists>c'. header_classes (scroll_run [10, 80, 40]
           \<lparr>header_classes = Some [], last_scroll = 0, hero_offset = None\<rparr>) = Some c'
     \<and> js ''scrolled'' \<notin> set c'"
  using sticky_header_latest_position [of "[10, 80, 40]" "\<lparr>header_classes = Some [], last_scroll = 0, hero_offset = None\<rparr>" "[]"]
  by auto

theorem parallax_without_header_witness:
  "hero_offset (scroll_run [10, 80] \<lparr>header_classes = None, last_scroll = 0, hero_offset = Some None\<rparr>)
     = Some (Some 40)"
  using parallax_without_header [of "[10, 80]" "\<lparr>header_classes = None, last_scroll = 0, hero_offset = Some None\<rparr>" None]
  by simp

end
