(* ===== verification/Mobile_Menu.thy ===== *)
theory Mobile_Menu
  imports JS_Prelude
begin

text \<open>
  The mobile menu of \<^verbatim>\<open>src/js/main.js\<close> (lines 28--59): the click listener of
  \<^verbatim>\<open>.mobile-menu-toggle\<close>, which toggles \<^verbatim>\<open>mobile-open\<close> on the \<^verbatim>\<open>nav\<close> and
  turns the toggle's three bars into a cross and back, and the click listener of every
  \<^verbatim>\<open>nav a\<close>, which closes the menu. Both are registered only when the toggle exists.
  The state is the nav's class list (\<^verbatim>\<open>nav\<close> may be missing) and the inline
  \<^verbatim>\<open>transform\<close> and \<^verbatim>\<open>opacity\<close> of each \<^verbatim>\<open>span\<close> of the toggle.
\<close>

section \<open>State and listeners\<close>

record menu_span =
  span_transform :: jstr   \<comment> \<open>\<^verbatim>\<open>span.style.transform\<close>\<close>
  span_opacity :: jstr     \<comment> \<open>\<^verbatim>\<open>span.style.opacity\<close>\<close>

record menu_page =
  menu_nav :: "class_list option"   \<comment> \<open>\<^verbatim>\<open>document.querySelector("nav")\<close>\<close>
  menu_spans :: "menu_span list"    \<comment> \<open>\<^verbatim>\<open>mobileMenuToggle.querySelectorAll("span")\<close>\<close>
  menu_toggle :: bool               \<comment> \<open>\<^verbatim>\<open>.mobile-menu-toggle\<close> exists\<close>

text \<open>Lines 38--40: the bar at index 0, 1 or 2 when the menu opens; later bars keep
  their style.\<close>

definition span_open :: "nat \<Rightarrow> menu_span \<Rightarrow> menu_span" where
  "span_open i s =
     (if i = 0 then s\<lparr>span_transform := js ''rotate(45deg) translate(5px, 5px)''\<rparr>
      else if i = 1 then s\<lparr>span_opacity := js ''0''\<rparr>
      else if i = 2 then s\<lparr>span_transform := js ''rotate(-45deg) translate(7px, -6px)''\<rparr>
      else s)"

text \<open>Lines 42--43 and 54--55.\<close>

definition span_reset :: "menu_span \<Rightarrow> menu_span" where
  "span_reset s = s\<lparr>span_transform := [], span_opacity := js ''1''\<rparr>"

text \<open>The toggle's click listener, lines 33--46. Without a \<^verbatim>\<open>nav\<close> it throws at
  line 34 before changing anything.\<close>

definition menu_toggle_click :: "menu_page \<Rightarrow> js_error + menu_page" where
  "menu_toggle_click m =
     (case menu_nav m of
        None \<Rightarrow> Inl TypeError
      | Some c \<Rightarrow>
          (let c' = cl_toggle (js ''mobile-open'') c in
           Inr (m\<lparr>menu_nav := Some c',
                  menu_spans := (if js ''mobile-open'' \<in> set c'
                                 then map2 span_open [0..<length (menu_spans m)] (menu_spans m)
                                 else map span_reset (menu_spans m))\<rparr>)))"

text \<open>A navigation link's click listener, lines 50--57.\<close>

definition menu_link_click :: "menu_page \<Rightarrow> js_error + menu_page" where
  "menu_link_click m =
     (case menu_nav m of
        None \<Rightarrow> Inl TypeError
      | Some c \<Rightarrow> Inr (m\<lparr>menu_nav := Some (cl_remove (js ''mobile-open'') c),
                          menu_spans := map span_reset (menu_spans m)\<rparr>))"

section \<open>Properties\<close>

text \<open>The icon agrees with the menu: open, the first three bars form the cross (the
  first and third rotated by 45 degrees either way, the second hidden); closed, every
  bar has no transform and is visible (opacity unset or 1).\<close>

definition menu_open :: "menu_page \<Rightarrow> bool" where
  "menu_open m \<longleftrightarrow> (case menu_nav m of None \<Rightarrow> False | Some c \<Rightarrow> js ''mobile-open'' \<in> set c)"

definition bar_shown :: "menu_span \<Rightarrow> bool" where
  "bar_shown s \<longleftrightarrow> span_transform s = [] \<and> (span_opacity s = [] \<or> span_opacity s = js ''1'')"

definition cross_span :: "nat \<Rightarrow> menu_span \<Rightarrow> bool" where
  "cross_span i s \<longleftrightarrow>
     (if i = 0 then span_transform s = js ''rotate(45deg) translate(5px, 5px)''
      else if i = 1 then span_opacity s = js ''0''
      else if i = 2 then span_transform s = js ''rotate(-45deg) translate(7px, -6px)''
      else True)"

definition cross_shown :: "menu_span list \<Rightarrow> bool" where
  "cross_shown ss \<longleftrightarrow> list_all (\<lambda>(i, s). cross_span i s) (zip [0..<length ss] ss)"

definition icon_matches :: "menu_page \<Rightarrow> bool" where
  "icon_matches m \<longleftrightarrow>
     (if menu_open m then cross_shown (menu_spans m) else list_all bar_shown (menu_spans m))"


text \<open>A page with the menu closed and three unstyled bars.\<close>

definition closed_menu :: menu_page where
  "closed_menu =
     \<lparr>menu_nav = Some [], menu_spans = replicate 3 \<lparr>span_transform = [], span_opacity = []\<rparr>,
      menu_toggle = True\<rparr>"

section \<open>Lemmas\<close>

lemma cross_span_open: "cross_span i (span_open i s)"
  by (simp add: cross_span_def span_open_def)

lemma cross_shown_open: "cross_shown (map2 span_open [0..<length ss] ss)"
  by (simp add: cross_shown_def list_all_length cross_span_open)

lemma bar_shown_reset: "list_all bar_shown (map span_reset ss)"
  by (simp add: list_all_iff span_reset_def bar_shown_def)

lemma length_map2_open [simp]: "length (map2 span_open [0..<length ss] ss) = length ss"
  by simp

text \<open>C23. A click on the toggle, when it returns, flips the menu between open and
  closed and leaves the icon agreeing with the new state, whatever the icon showed.\<close>

theorem menu_toggle_click_flips:
  "menu_toggle_click m = Inr m' \<Longrightarrow> (menu_open m' \<longleftrightarrow> \<not> menu_open m) \<and> icon_matches m'"
  by (auto simp: menu_toggle_click_def menu_open_def icon_matches_def Let_def cross_shown_open
        bar_shown_reset split: option.splits)

text \<open>C24. A click on a navigation link, when it returns, leaves the menu closed with
  the bars shown.\<close>

theorem menu_link_click_closes:
  "menu_link_click m = Inr m' \<Longrightarrow> \<not> menu_open m' \<and> icon_matches m'"
  by (auto simp: menu_link_click_def menu_open_def icon_matches_def bar_shown_reset split: option.splits)

theorem menu_toggle_click_TypeError: "menu_toggle_click m = Inl TypeError \<longleftrightarrow> menu_nav m = None"
  by (simp add: menu_toggle_click_def Let_def split: option.split)

subsection \<open>Witnesses\<close>

theorem menu_toggle_click_flips_witness:
  "\<exists>m'. menu_toggle_click closed_menu = Inr m' \<and> menu_open m' \<and> icon_matches m'"
proof -
  have "\<not> isl (menu_toggle_click closed_menu)" by (simp add: menu_toggle_click_def closed_menu_def)
  then obtain m' where h: "menu_toggle_click closed_menu = Inr m'"
    by (cases "menu_toggle_click closed_menu") auto
  have "\<not> menu_open closed_menu" by (simp add: menu_open_def closed_menu_def)
  then show ?thesis using menu_toggle_click_flips [OF h] h by blast
qed

theorem menu_link_click_closes_witness:
  "\<exists>m'. menu_link_click closed_menu = Inr m' \<and> \<not> menu_open m' \<and> icon_matches m'"
proof -
  have "\<not> isl (menu_link_click closed_menu)" by (simp add: menu_link_click_def closed_menu_def)
  then obtain m' where h: "menu_link_click closed_menu = Inr m'"
    by (cases "menu_link_click closed_menu") auto
  then show ?thesis using menu_link_click_closes [OF h] by blast
qed

end
