(* ===== verification/Typewriter.thy ===== *)
theory Typewriter
  imports JS_Prelude
begin

text \<open>
  The typewriter effect of \<^verbatim>\<open>src/js/main.js\<close> (lines 105--128). The closure
  \<^verbatim>\<open>type\<close> shares the variable \<^verbatim>\<open>i\<close>, the captured \<^verbatim>\<open>text\<close> and the element;
  each call appends \<^verbatim>\<open>text.charAt(i)\<close> (one UTF-16 code unit) and schedules itself
  again after \<^verbatim>\<open>speed\<close> ms, until \<^verbatim>\<open>i\<close> reaches the length. The first call is
  synchronous. \<open>tw_timeline\<close> runs the chain of callbacks with fuel, each timer firing
  exactly when due because nothing else is queued in between; \<^theory_text>\<open>Page\<close> runs the
  same callback inside the page's shared timer queue.
\<close>

section \<open>State and the callback\<close>

record typewriter =
  tw_text :: jstr      \<comment> \<open>\<^verbatim>\<open>text\<close>\<close>
  tw_i :: nat          \<comment> \<open>\<^verbatim>\<open>i\<close>\<close>
  tw_content :: jstr   \<comment> \<open>\<^verbatim>\<open>element.textContent\<close>\<close>

text \<open>\<^verbatim>\<open>type()\<close>, lines 112--118: the new state and the delays of the timers it sets.\<close>

definition tw_type :: "nat \<Rightarrow> typewriter \<Rightarrow> typewriter \<times> nat list" where
  "tw_type speed s =
     (if tw_i s < length (tw_text s) then
        (s\<lparr>tw_content := tw_content s @ [tw_text s ! tw_i s], tw_i := Suc (tw_i s)\<rparr>, [speed])
      else (s, []))"

text \<open>\<^verbatim>\<open>typewriterEffect(element, text, speed)\<close>, lines 106--121, with the element
  present or not: clear the text, start at 0, call \<^verbatim>\<open>type()\<close> once.\<close>

definition typewriter_effect :: "bool \<Rightarrow> jstr \<Rightarrow> nat \<Rightarrow> (typewriter \<times> nat list) option" where
  "typewriter_effect present text speed =
     (if \<not> present then None
      else Some (tw_type speed \<lparr>tw_text = text, tw_i = 0, tw_content = []\<rparr>))"

text \<open>Lines 124--128: the hero title types its own initial text at 80 ms per unit.\<close>

definition hero_typewriter :: "jstr option \<Rightarrow> (typewriter \<times> nat list) option" where
  "hero_typewriter title =
     (case title of None \<Rightarrow> None | Some original \<Rightarrow> typewriter_effect True original 80)"

text \<open>The chain of calls, from a call at time \<open>t\<close>: the time and the element's text
  after each call, as long as the previous call set a timer; \<open>n\<close> bounds the number
  of calls.\<close>

fun tw_timeline :: "nat \<Rightarrow> nat \<Rightarrow> nat \<Rightarrow> typewriter \<Rightarrow> (nat \<times> jstr) list" where
  "tw_timeline 0 speed t s = []"
| "tw_timeline (Suc n) speed t s =
     (let (s', ds) = tw_type speed s
      in (t, tw_content s') # (if ds = [] then [] else tw_timeline n speed (t + speed) s'))"

section \<open>Lemmas\<close>

lemma tw_timeline_done:
  "\<not> tw_i s < length (tw_text s) \<Longrightarrow> tw_timeline (Suc n) d t s = [(t, tw_content s)]"
  by (simp add: tw_type_def)

lemma tw_type_step:
  "i < length x \<Longrightarrow>
   tw_type d \<lparr>tw_text = x, tw_i = i, tw_content = take i x\<rparr> =
     (\<lparr>tw_text = x, tw_i = Suc i, tw_content = take (Suc i) x\<rparr>, [d])"
  by (simp add: tw_type_def take_Suc_conv_app_nth)

lemma tw_timeline_from:
  "i < length x \<Longrightarrow> length x - i < n \<Longrightarrow>
   tw_timeline n d t \<lparr>tw_text = x, tw_i = i, tw_content = take i x\<rparr> =
     map (\<lambda>k. (t + (k - i) * d, take (Suc k) x)) [i..<length x] @ [(t + (length x - i) * d, x)]"
proof (induction n arbitrary: i t)
  case 0 then show ?case by simp
next
  case (Suc n)
  note step = tw_type_step [OF Suc.prems(1), of d]
  show ?case
  proof (cases "Suc i < length x")
    case True
    have IH: "tw_timeline n d (t + d) \<lparr>tw_text = x, tw_i = Suc i, tw_content = take (Suc i) x\<rparr> =
       map (\<lambda>k. (t + d + (k - Suc i) * d, take (Suc k) x)) [Suc i..<length x]
       @ [(t + d + (length x - Suc i) * d, x)]"
    proof -
      have "length x - Suc i < n" using Suc.prems True by arith
      then show ?thesis using Suc.IH [OF True] by simp
    qed
    have m: "map (\<lambda>k. (t + d + (k - Suc i) * d, take (Suc k) x)) [Suc i..<length x]
           = map (\<lambda>k. (t + (k - i) * d, take (Suc k) x)) [Suc i..<length x]"
    proof (rule map_cong [OF refl])
      fix k assume "k \<in> set [Suc i..<length x]"
      then have "k - i = Suc (k - Suc i)" by auto
      then show "(t + d + (k - Suc i) * d, take (Suc k) x) = (t + (k - i) * d, take (Suc k) x)" by simp
    qed
    have "length x - i = Suc (length x - Suc i)" using True by arith
    then have e: "t + d + (length x - Suc i) * d = t + (length x - i) * d" by simp
    have "tw_timeline (Suc n) d t \<lparr>tw_text = x, tw_i = i, tw_content = take i x\<rparr>
        = (t, take (Suc i) x) # tw_timeline n d (t + d) \<lparr>tw_text = x, tw_i = Suc i, tw_content = take (Suc i) x\<rparr>"
      by (simp add: step)
    also have "\<dots> = (t, take (Suc i) x) # map (\<lambda>k. (t + (k - i) * d, take (Suc k) x)) [Suc i..<length x]
                     @ [(t + (length x - i) * d, x)]"
      by (simp only: IH m e)
    also have "\<dots> = map (\<lambda>k. (t + (k - i) * d, take (Suc k) x)) [i..<length x] @ [(t + (length x - i) * d, x)]"
      using Suc.prems(1) by (simp add: upt_conv_Cons)
    finally show ?thesis .
  next
    case False
    then have L: "length x = Suc i" using Suc.prems(1) by simp
    then obtain n' where n: "n = Suc n'" using Suc.prems(2) by (cases n) auto
    have "tw_timeline n d (t + d) \<lparr>tw_text = x, tw_i = Suc i, tw_content = take (Suc i) x\<rparr> = [(t + d, x)]"
      using L n tw_timeline_done [of "\<lparr>tw_text = x, tw_i = Suc i, tw_content = take (Suc i) x\<rparr>" n' d "t + d"]
      by simp
    then show ?thesis using L by (simp add: step)
  qed
qed

text \<open>C25. For a non-empty text of \<open>L\<close> code units, the chain of calls shows the
  first \<open>k + 1\<close> units at time \<open>k \<cdot> speed\<close> for \<open>k < L\<close>, makes one last call at
  \<open>L \<cdot> speed\<close> that changes nothing and sets no timer, and then stops: any fuel
  above \<open>L\<close> gives the same, finite, timeline.\<close>

theorem typewriter_timeline:
  assumes "x \<noteq> []" "length x < n"
  shows "tw_timeline n d 0 \<lparr>tw_text = x, tw_i = 0, tw_content = []\<rparr> =
     map (\<lambda>k. (k * d, take (Suc k) x)) [0..<length x] @ [(length x * d, x)]"
  using tw_timeline_from [of 0 x n d 0] assms by simp

subsection \<open>Witnesses\<close>

text \<open>The spec's example "Hi" with delay 80: the code shows "H" at time 0 and "Hi"
  at 80 (then a last, empty call at 160); the empty text the spec lists at time 0 is
  overwritten by the synchronous first call before anything is drawn.\<close>

theorem typewriter_timeline_witness:
  "tw_timeline 3 80 0 \<lparr>tw_text = js ''Hi'', tw_i = 0, tw_content = []\<rparr>
     = [(0, js ''H''), (80, js ''Hi''), (160, js ''Hi'')]"
proof -
  have "js ''Hi'' \<noteq> []" "length (js ''Hi'') < 3" by (simp_all add: js_def)
  from typewriter_timeline [OF this, of 80] show ?thesis by (simp add: js_def upt_conv_Cons)
qed

end
