(* ===== verification/Reveal.thy ===== *)
theory Reveal
  imports JS_Prelude
begin

text \<open>
  The scroll-triggered animations of \<^verbatim>\<open>src/js/main.js\<close>: the global
  \<^verbatim>\<open>IntersectionObserver\<close> of lines 136--155, which observes every \<^verbatim>\<open>.reveal\<close>
  and every \<^verbatim>\<open>.skill-item\<close> element (lines 158--165), and the per-bar observers
  created by \<^verbatim>\<open>animateSkillBars\<close> (lines 359--380). The page is a flat list of
  elements; each element carries its class list and the \<^verbatim>\<open>.skill-bar\<close> elements
  inside it, in document order, so a bar's \<^verbatim>\<open>closest(".skill-item")\<close> is its
  element when that element is a skill item. An observer is the list of targets it
  still observes; \<^verbatim>\<open>unobserve\<close> removes the target. The callbacks return the
  timers they set, as (delay, bar write) pairs; \<^theory_text>\<open>Page\<close> puts them on the page's
  timer queue.

  Intersection is abstracted to an entry for element \<open>k\<close> with visible ratio \<open>r\<close>:
  an observer with threshold \<open>t\<close> (0.1 for the global observer, 0.3 for the bar
  observers) receives an intersecting entry when \<open>t \<le> r\<close>, and none otherwise.
\<close>

section \<open>State\<close>

record skill_bar =
  bar_data_width :: "jstr option"   \<comment> \<open>the \<^verbatim>\<open>data-width\<close> attribute\<close>
  bar_width :: jstr                 \<comment> \<open>\<^verbatim>\<open>style.width\<close>\<close>

record rv_elem =
  rv_classes :: class_list
  rv_bars :: "skill_bar list"       \<comment> \<open>the \<^verbatim>\<open>.skill-bar\<close> descendants\<close>

text \<open>A pending width write: element, bar within it, value of \<^verbatim>\<open>width\<close>.\<close>

type_synonym bar_write = "nat \<times> nat \<times> jstr"

record reveal_page =
  rv_elems :: "rv_elem list"
  rv_observed :: "nat list"                   \<comment> \<open>targets of the global \<^verbatim>\<open>observer\<close>\<close>
  bar_observers :: "(nat \<times> nat \<times> jstr) list"
    \<comment> \<open>one per animated bar, in creation order: its target, the bar, the captured width\<close>

section \<open>Operations\<close>

text \<open>\<^verbatim>\<open>bar.getAttribute("data-width") || "0"\<close>: a missing or empty attribute
  gives \<^verbatim>\<open>"0"\<close>.\<close>

definition data_width :: "skill_bar \<Rightarrow> jstr" where
  "data_width b = (case bar_data_width b of None \<Rightarrow> js ''0'' | Some w \<Rightarrow> if w = [] then js ''0'' else w)"

text \<open>\<^verbatim>\<open>observer.observe(el)\<close>: observing a target twice is the same as once.\<close>

definition observe :: "nat \<Rightarrow> nat list \<Rightarrow> nat list" where
  "observe k obs = (if k \<in> set obs then obs else obs @ [k])"

definition elems_with :: "jstr \<Rightarrow> rv_elem list \<Rightarrow> nat list" where
  "elems_with c es = filter (\<lambda>k. c \<in> set (rv_classes (es ! k))) [0..<length es]"

text \<open>Lines 158--165: the global observer observes the reveal targets, then the skill
  items.\<close>

definition observe_all :: "reveal_page \<Rightarrow> reveal_page" where
  "observe_all s =
     s\<lparr>rv_observed := fold observe (elems_with (js ''reveal'') (rv_elems s) @ elems_with (js ''skill-item'') (rv_elems s))
                        (rv_observed s)\<rparr>"

text \<open>\<^verbatim>\<open>animateSkillBars()\<close>, lines 359--380: for every bar, in document order,
  whose element is a skill item, an observer of that item with the width read now.\<close>

definition animate_skill_bars :: "reveal_page \<Rightarrow> reveal_page" where
  "animate_skill_bars s =
     s\<lparr>bar_observers := bar_observers s @
        concat (map (\<lambda>k. let el = rv_elems s ! k in
                           if js ''skill-item'' \<in> set (rv_classes el)
                           then map (\<lambda>j. (k, j, data_width (rv_bars el ! j))) [0..<length (rv_bars el)]
                           else [])
                    [0..<length (rv_elems s)])\<rparr>"

definition reveal_init :: "reveal_page \<Rightarrow> reveal_page" where
  "reveal_init s = animate_skill_bars (observe_all s)"

text \<open>The global observer's callback for an intersecting entry of element \<open>k\<close>,
  lines 138--153: add \<^verbatim>\<open>visible\<close>; for a skill item, set a 200 ms timer that
  writes the width of its first bar, if it has one; unobserve the element.\<close>

definition reveal_entry :: "nat \<Rightarrow> reveal_page \<Rightarrow> reveal_page \<times> (nat \<times> bar_write) list" where
  "reveal_entry k s =
     (let el = rv_elems s ! k; c = cl_add (js ''visible'') (rv_classes el) in
      (s\<lparr>rv_elems := (rv_elems s)[k := el\<lparr>rv_classes := c\<rparr>], rv_observed := removeAll k (rv_observed s)\<rparr>,
       if js ''skill-item'' \<in> set c then
         (case rv_bars el of [] \<Rightarrow> [] | b # _ \<Rightarrow> [(200, (k, 0, data_width b))])
       else []))"

text \<open>The bar observers' callbacks for an intersecting entry of element \<open>k\<close>,
  lines 369--376, in creation order: each sets a 300 ms timer with its captured width
  and unobserves.\<close>

definition bar_entries :: "nat \<Rightarrow> reveal_page \<Rightarrow> reveal_page \<times> (nat \<times> bar_write) list" where
  "bar_entries k s =
     (s\<lparr>bar_observers := filter (\<lambda>ob. fst ob \<noteq> k) (bar_observers s)\<rparr>,
      map (\<lambda>ob. (300, ob)) (filter (\<lambda>ob. fst ob = k) (bar_observers s)))"

text \<open>Element \<open>k\<close> enters the viewport with ratio \<open>r\<close>: the global observer (created
  first) and then the bar observers receive their entries, if they observe \<open>k\<close> and
  \<open>r\<close> reaches their threshold.\<close>

definition intersect :: "nat \<Rightarrow> real \<Rightarrow> reveal_page \<Rightarrow> reveal_page \<times> (nat \<times> bar_write) list" where
  "intersect k r s =
     (let (s1, t1) = (if k \<in> set (rv_observed s) \<and> 0.1 \<le> r then reveal_entry k s else (s, []));
          (s2, t2) = (if 0.3 \<le> r then bar_entries k s1 else (s1, []))
      in (s2, t1 @ t2))"

text \<open>The timer callback of lines 147--149 and 371--373: \<^verbatim>\<open>bar.style.width = width + "%"\<close>.\<close>

definition write_width :: "bar_write \<Rightarrow> reveal_page \<Rightarrow> reveal_page" where
  "write_width w s =
     (case w of (k, j, v) \<Rightarrow>
        let el = rv_elems s ! k in
        s\<lparr>rv_elems := (rv_elems s)[k := el\<lparr>rv_bars := (rv_bars el)[j := (rv_bars el ! j)\<lparr>bar_width := v @ js ''%''\<rparr>]\<rparr>]\<rparr>)"

section \<open>Well-formedness and the abstract specification\<close>

text \<open>Every target of an observer is an element of the page, and every bar observer
  names a bar of its element.\<close>

definition rv_wf :: "reveal_page \<Rightarrow> bool" where
  "rv_wf s \<longleftrightarrow>
     list_all (\<lambda>k. k < length (rv_elems s)) (rv_observed s)
   \<and> list_all (\<lambda>(k, j, _). k < length (rv_elems s) \<and> j < length (rv_bars (rv_elems s ! k))) (bar_observers s)"

definition write_ok :: "reveal_page \<Rightarrow> bar_write \<Rightarrow> bool" where
  "write_ok s w \<longleftrightarrow> (case w of (k, j, _) \<Rightarrow> k < length (rv_elems s) \<and> j < length (rv_bars (rv_elems s ! k)))"

text \<open>What the animations promise, on sets: the elements shown so far, the elements
  still waiting for the global observer, and the bar animations still waiting. An entry
  reaching 10\<open>%\<close> shows a waiting element once and for all; one reaching 30\<open>%\<close>
  releases the element's waiting bar animations.\<close>

record rv_spec =
  a_visible :: "nat set"
  a_waiting :: "nat set"
  a_bars :: "bar_write set"

definition abs_reveal :: "reveal_page \<Rightarrow> rv_spec" where
  "abs_reveal s = \<lparr>a_visible = set (elems_with (js ''visible'') (rv_elems s)),
                    a_waiting = set (rv_observed s), a_bars = set (bar_observers s)\<rparr>"

definition spec_intersect :: "nat \<Rightarrow> real \<Rightarrow> rv_spec \<Rightarrow> rv_spec" where
  "spec_intersect k r a =
     (let a1 = (if k \<in> a_waiting a \<and> 0.1 \<le> r
                then a\<lparr>a_visible := insert k (a_visible a), a_waiting := a_waiting a - {k}\<rparr> else a)
      in if 0.3 \<le> r then a1\<lparr>a_bars := {b \<in> a_bars a1. fst b \<noteq> k}\<rparr> else a1)"

text \<open>A page with a reveal target and a skill item holding two bars, one with
  \<^verbatim>\<open>data-width="85"\<close> and one without the attribute, after the script ran.\<close>

definition demo_dom :: reveal_page where
  "demo_dom =
     \<lparr>rv_elems = [\<lparr>rv_classes = [js ''reveal''], rv_bars = []\<rparr>,
                  \<lparr>rv_classes = [js ''skill-item''],
                   rv_bars = [\<lparr>bar_data_width = Some (js ''85''), bar_width = []\<rparr>,
                              \<lparr>bar_data_width = None, bar_width = []\<rparr>]\<rparr>],
      rv_observed = [], bar_observers = []\<rparr>"

definition demo_reveal :: reveal_page where
  "demo_reveal = reveal_init demo_dom"

section \<open>Lemmas\<close>

lemma js_skill_item_visible [simp]: "js ''skill-item'' \<noteq> js ''visible''"
  by (simp add: js_def)

lemma observed_reveal_entry [simp]: "rv_observed (fst (reveal_entry k s)) = removeAll k (rv_observed s)"
  by (simp add: reveal_entry_def Let_def)

lemma snd_reveal_entry:
  "snd (reveal_entry k s) =
     (if js ''skill-item'' \<in> set (rv_classes (rv_elems s ! k))
      then (case rv_bars (rv_elems s ! k) of [] \<Rightarrow> [] | b # _ \<Rightarrow> [(200, (k, 0, data_width b))]) else [])"
  by (simp add: reveal_entry_def Let_def)

lemma bar_observers_reveal_entry [simp]: "bar_observers (fst (reveal_entry k s)) = bar_observers s"
  by (simp add: reveal_entry_def Let_def)

lemma bar_entries_again: "bar_entries k (fst (bar_entries k s)) = (fst (bar_entries k s), [])"
  by (simp add: bar_entries_def split_beta)

lemma set_elems_with: "set (elems_with c es) = {k. k < length es \<and> c \<in> set (rv_classes (es ! k))}"
  by (auto simp: elems_with_def)

lemma elems_reveal_entry [simp]:
  "rv_elems (fst (reveal_entry k s)) =
     (rv_elems s)[k := (rv_elems s ! k)\<lparr>rv_classes := cl_add (js ''visible'') (rv_classes (rv_elems s ! k))\<rparr>]"
  by (simp add: reveal_entry_def Let_def)

lemma fst_intersect:
  "fst (intersect k r s) =
     (let s1 = (if k \<in> set (rv_observed s) \<and> 0.1 \<le> r then fst (reveal_entry k s) else s)
      in if 0.3 \<le> r then fst (bar_entries k s1) else s1)"
  by (simp add: intersect_def split_beta Let_def)

lemma bars_classes_update [simp]: "rv_bars (es[k := (es ! k)\<lparr>rv_classes := c\<rparr>] ! i) = rv_bars (es ! i)"
  by (cases "k = i"; cases "k < length es") (simp_all add: nth_list_update_neq list_update_beyond)

lemma length_bars_update [simp]:
  "length (rv_bars (es[k := (es ! k)\<lparr>rv_bars := (rv_bars (es ! k))[j := b]\<rparr>] ! i)) = length (rv_bars (es ! i))"
  by (cases "k = i"; cases "k < length es") (simp_all add: nth_list_update_neq list_update_beyond)

lemma set_fold_observe: "set (fold observe ks obs) = set obs \<union> set ks"
  by (induction ks arbitrary: obs) (auto simp: observe_def)

lemma abs_reveal_entry:
  "k < length (rv_elems s) \<Longrightarrow>
   abs_reveal (fst (reveal_entry k s)) =
     (abs_reveal s)\<lparr>a_visible := insert k (a_visible (abs_reveal s)), a_waiting := a_waiting (abs_reveal s) - {k}\<rparr>"
  by (auto simp: abs_reveal_def set_elems_with nth_list_update)

lemma a_waiting_abs [simp]: "a_waiting (abs_reveal s) = set (rv_observed s)"
  by (simp add: abs_reveal_def)

lemma abs_bar_entries:
  "abs_reveal (fst (bar_entries k s)) = (abs_reveal s)\<lparr>a_bars := {b \<in> a_bars (abs_reveal s). fst b \<noteq> k}\<rparr>"
  by (auto simp: abs_reveal_def bar_entries_def)

text \<open>C29. Each element is animated at most once: the same entry delivered again
  changes nothing and sets no timer.\<close>

theorem intersect_once:
  "intersect k r (fst (intersect k r s)) = (fst (intersect k r s), [])"
  by (auto simp: intersect_def bar_entries_def reveal_entry_def Let_def split_beta)

text \<open>C30. The observers implement the abstract specification: on a well-formed page,
  an entry changes the shown, waiting and pending-bar sets exactly as
  \<open>spec_intersect\<close> says.\<close>

theorem intersect_refines:
  assumes "rv_wf s"
  shows "abs_reveal (fst (intersect k r s)) = spec_intersect k r (abs_reveal s)"
proof -
  have "k \<in> set (rv_observed s) \<Longrightarrow> k < length (rv_elems s)" using assms by (auto simp: rv_wf_def list_all_iff)
  then show ?thesis
    by (cases "k \<in> set (rv_observed s) \<and> 0.1 \<le> r"; cases "0.3 \<le> r")
      (auto simp: fst_intersect spec_intersect_def abs_reveal_entry abs_bar_entries Let_def)
qed

lemma rv_wf_init: "rv_wf s \<Longrightarrow> rv_wf (reveal_init s)"
  by (auto simp: rv_wf_def reveal_init_def animate_skill_bars_def observe_all_def list_all_iff
      set_elems_with set_fold_observe Let_def split: if_splits)

lemma rv_wf_write_width: "rv_wf s \<Longrightarrow> rv_wf (write_width w s)"
  by (simp add: rv_wf_def write_width_def Let_def split: prod.split)

lemma rv_wf_reveal_entry: "rv_wf s \<Longrightarrow> rv_wf (fst (reveal_entry k s))"
  by (auto simp: rv_wf_def list_all_iff)

lemma rv_wf_bar_entries: "rv_wf s \<Longrightarrow> rv_wf (fst (bar_entries k s))"
  by (auto simp: rv_wf_def bar_entries_def list_all_iff)

lemma writes_ok_reveal_entry:
  "rv_wf s \<Longrightarrow> k \<in> set (rv_observed s) \<Longrightarrow>
   list_all (\<lambda>(d, w). write_ok (fst (reveal_entry k s)) w) (snd (reveal_entry k s))"
proof -
  assume "rv_wf s" "k \<in> set (rv_observed s)"
  then have "k < length (rv_elems s)" by (auto simp: rv_wf_def list_all_iff)
  then show ?thesis by (simp add: snd_reveal_entry write_ok_def split: list.split)
qed

lemma write_ok_bar_entries_iff [simp]: "write_ok (fst (bar_entries k s)) w = write_ok s w"
  by (simp add: write_ok_def bar_entries_def)

lemma writes_ok_bar_entries:
  "rv_wf s \<Longrightarrow> list_all (\<lambda>(d, w). write_ok (fst (bar_entries k s)) w) (snd (bar_entries k s))"
  by (auto simp: rv_wf_def list_all_iff write_ok_def bar_entries_def)

text \<open>C31. The animations keep the page well formed: from a well-formed page an entry
  leaves it well formed, and every width write it schedules names an existing bar.\<close>

theorem intersect_wf:
  assumes "rv_wf s"
  shows "rv_wf (fst (intersect k r s)) \<and> list_all (\<lambda>(d, w). write_ok (fst (intersect k r s)) w) (snd (intersect k r s))"
proof -
  let ?c = "k \<in> set (rv_observed s) \<and> 0.1 \<le> r"
  let ?s1 = "if ?c then fst (reveal_entry k s) else s"
  let ?t1 = "if ?c then snd (reveal_entry k s) else []"
  have wf1: "rv_wf ?s1" using assms rv_wf_reveal_entry by simp
  have ok1: "list_all (\<lambda>(d, w). write_ok ?s1 w) ?t1" using assms writes_ok_reveal_entry by simp
  have i: "intersect k r s =
     (if 0.3 \<le> r then (fst (bar_entries k ?s1), ?t1 @ snd (bar_entries k ?s1)) else (?s1, ?t1))"
    by (simp add: intersect_def split_beta)
  show ?thesis
  proof (cases "0.3 \<le> r")
    case True
    from i have e: "intersect k r s = (fst (bar_entries k ?s1), ?t1 @ snd (bar_entries k ?s1))"
      by (simp only: if_P [OF True])
    have "list_all (\<lambda>(d, w). write_ok (fst (bar_entries k ?s1)) w) (?t1 @ snd (bar_entries k ?s1))"
      using ok1 writes_ok_bar_entries [OF wf1, of k] by simp
    then show ?thesis unfolding e fst_conv snd_conv using rv_wf_bar_entries [OF wf1] by (rule conjI [rotated])
  next
    case False
    from i have e: "intersect k r s = (?s1, ?t1)" by (simp only: if_not_P [OF False])
    show ?thesis unfolding e fst_conv snd_conv using wf1 ok1 by (rule conjI)
  qed
qed

lemma filter_concat_upt_Nil:
  "(\<And>i. i < n \<Longrightarrow> filter P (F i) = []) \<Longrightarrow> filter P (concat (map F [0..<n])) = []"
  by (induction n) auto

lemma filter_concat_upt:
  assumes "\<And>i. i \<noteq> k \<Longrightarrow> filter P (F i) = []" "k < n"
  shows "filter P (concat (map F [0..<n])) = filter P (F k)"
  using assms(2)
proof (induction n)
  case (Suc n)
  show ?case
  proof (cases "k = n")
    case True
    have "filter P (concat (map F [0..<n])) = []"
      by (rule filter_concat_upt_Nil) (use True assms(1) in auto)
    then show ?thesis using True by simp
  next
    case False
    then show ?thesis using Suc assms(1) [OF False [symmetric]] by simp
  qed
qed simp

lemma bar_observers_init:
  assumes "k < length (rv_elems s)" "bar_observers s = []"
  shows "filter (\<lambda>ob. fst ob = k) (bar_observers (reveal_init s)) =
     (if js ''skill-item'' \<in> set (rv_classes (rv_elems s ! k))
      then map (\<lambda>j. (k, j, data_width (rv_bars (rv_elems s ! k) ! j))) [0..<length (rv_bars (rv_elems s ! k))]
      else [])"
proof -
  define F where "F = (\<lambda>k. let el = rv_elems s ! k in
                           if js ''skill-item'' \<in> set (rv_classes el)
                           then map (\<lambda>j. (k, j, data_width (rv_bars el ! j))) [0..<length (rv_bars el)]
                           else [])"
  have bo: "bar_observers (reveal_init s) = concat (map F [0..<length (rv_elems s)])"
    using assms(2) by (simp add: reveal_init_def animate_skill_bars_def observe_all_def F_def)
  have z: "\<And>i. i \<noteq> k \<Longrightarrow> filter (\<lambda>ob. fst ob = k) (F i) = []"
    by (auto simp: F_def Let_def filter_empty_conv)
  have "filter (\<lambda>ob. fst ob = k) (F k) = F k" by (auto simp: F_def Let_def filter_id_conv)
  then show ?thesis using filter_concat_upt [OF z assms(1)] bo by (simp add: F_def Let_def)
qed

lemma observed_init:
  "k < length (rv_elems s) \<Longrightarrow> js ''skill-item'' \<in> set (rv_classes (rv_elems s ! k)) \<Longrightarrow>
   k \<in> set (rv_observed (reveal_init s))"
  by (simp add: reveal_init_def animate_skill_bars_def observe_all_def set_fold_observe set_elems_with)

text \<open>C32. The first bar of a skill item is animated twice. On any page before the
  script runs, once the script has set up its observers, the first entry of a skill
  item that reaches 30\<open>%\<close> makes the global observer set a 200 ms width write for the
  item's first bar and that bar's own observer set a 300 ms write for the same bar and
  value, although the spec says each skill bar animates at most once.\<close>

theorem first_bar_written_twice:
  assumes "k < length (rv_elems s)" "js ''skill-item'' \<in> set (rv_classes (rv_elems s ! k))"
    "rv_bars (rv_elems s ! k) = b # bs" "rv_observed s = []" "bar_observers s = []" "0.3 \<le> r"
  shows "filter (\<lambda>(d, w). fst w = k \<and> fst (snd w) = 0) (snd (intersect k r (reveal_init s)))
     = [(200, (k, 0, data_width b)), (300, (k, 0, data_width b))]"
proof -
  let ?s = "reveal_init s"
  have e: "rv_elems ?s = rv_elems s"
    by (simp add: reveal_init_def animate_skill_bars_def observe_all_def)
  have obs: "k \<in> set (rv_observed ?s)" using observed_init [OF assms(1,2)] .
  have t1: "snd (reveal_entry k ?s) = [(200, (k, 0, data_width b))]"
    using assms(2,3) e by (simp add: snd_reveal_entry)
  have bo: "filter (\<lambda>ob. fst ob = k) (bar_observers (fst (reveal_entry k ?s))) =
      map (\<lambda>j. (k, j, data_width ((b # bs) ! j))) [0..<Suc (length bs)]"
    using bar_observers_init [OF assms(1,5)] assms(2,3) by simp
  have t2: "snd (bar_entries k (fst (reveal_entry k ?s))) = map (\<lambda>ob. (300, ob)) (map (\<lambda>j. (k, j, data_width ((b # bs) ! j))) [0..<Suc (length bs)])"
    using bo by (simp add: bar_entries_def)
  have "snd (intersect k r ?s) = snd (reveal_entry k ?s) @ snd (bar_entries k (fst (reveal_entry k ?s)))"
    using obs assms(6) by (simp add: intersect_def split_beta)
  then show ?thesis using t1 t2 by (simp add: upt_conv_Cons filter_map comp_def del: upt_Suc)
qed

subsection \<open>Witnesses\<close>

lemma demo_reveal_wf: "rv_wf demo_reveal"
  by code_simp

theorem intersect_refines_witness:
  "abs_reveal (fst (intersect 1 0.5 demo_reveal)) = spec_intersect 1 0.5 (abs_reveal demo_reveal)"
  using intersect_refines [OF demo_reveal_wf] .

theorem intersect_wf_witness:
  "rv_wf (fst (intersect 1 0.5 demo_reveal))
   \<and> list_all (\<lambda>(d, w). write_ok (fst (intersect 1 0.5 demo_reveal)) w) (snd (intersect 1 0.5 demo_reveal))"
  using intersect_wf [OF demo_reveal_wf] .

theorem first_bar_written_twice_witness:
  "filter (\<lambda>(d, w). fst w = 1 \<and> fst (snd w) = 0) (snd (intersect 1 0.5 (reveal_init demo_dom)))
     = [(200, (1, 0, js ''85'')), (300, (1, 0, js ''85''))]"
proof -
  have h: "1 < length (rv_elems demo_dom)" "js ''skill-item'' \<in> set (rv_classes (rv_elems demo_dom ! 1))"
    "rv_bars (rv_elems demo_dom ! 1) = \<lparr>bar_data_width = Some (js ''85''), bar_width = []\<rparr> # [\<lparr>bar_data_width = None, bar_width = []\<rparr>]"
    "rv_observed demo_dom = []" "bar_observers demo_dom = []" "(0.3::real) \<le> 0.5"
    by (simp_all add: demo_dom_def)
  have "data_width \<lparr>bar_data_width = Some (js ''85''), bar_width = []\<rparr> = js ''85''"
    by (simp add: data_width_def js_def)
  with first_bar_written_twice [OF h] show ?thesis by simp
qed

end
