(* ===== verification/Page.thy ===== *)
theory Page
  imports Contact_Form Theme Nav Scroll Mobile_Menu Typewriter Reveal
begin

text \<open>
  The script of \<^verbatim>\<open>src/js/main.js\<close> as one event-driven machine (every listener
  except the anchor listener, see \<open>step\<close>). The state
  holds every component's part of the page, the clock in milliseconds, the queue of
  pending \<^verbatim>\<open>setTimeout\<close> callbacks (shared by all components, ordered by due time
  and then by scheduling order), and the log of uncaught exceptions. The top-level
  code runs once (\<open>script_init\<close>); afterwards the page reacts to a sequence of
  events: user actions at the current time, \<open>Wait\<close> (time passes, but never beyond
  the next due timer) and \<open>Tick\<close> (the earliest due callback runs). A listener that
  throws leaves the state as it found it and its exception is logged; the other
  listeners of the same event still run.
\<close>

section \<open>State\<close>

text \<open>The callbacks passed to \<^verbatim>\<open>setTimeout\<close> anywhere in the script.\<close>

datatype task =
    Form_Task form_task  \<comment> \<open>lines 241--247 and 333--335\<close>
  | Type_Next            \<comment> \<open>line 116\<close>
  | Fade_In              \<comment> \<open>lines 353--356\<close>
  | Bar_Width bar_write  \<comment> \<open>lines 147--149 and 371--373\<close>

record page =
  clock :: nat
  queue :: "task timer_queue"
  form :: "form_page option"      \<comment> \<open>\<^verbatim>\<open>#contact-form\<close> and its elements, if present\<close>
  theme :: theme_page
  scroll :: scroll_page
  menu :: menu_page
  links :: "nav_link list"        \<comment> \<open>\<^verbatim>\<open>nav a\<close>\<close>
  reveal :: reveal_page           \<comment> \<open>\<^verbatim>\<open>.reveal\<close>, \<^verbatim>\<open>.skill-item\<close>, \<^verbatim>\<open>.skill-bar\<close> and their observers\<close>
  hero :: "typewriter option"     \<comment> \<open>the typewriter of \<^verbatim>\<open>#hero-title\<close>, once started\<close>
  body_opacity :: jstr            \<comment> \<open>\<^verbatim>\<open>document.body.style.opacity\<close>\<close>
  errors :: "js_error list"       \<comment> \<open>uncaught exceptions, in order\<close>

datatype event =
    Wait nat
  | Tick
  | Load                       \<comment> \<open>the window's \<^verbatim>\<open>load\<close> event\<close>
  | Scroll_To real             \<comment> \<open>a \<^verbatim>\<open>scroll\<close> event at that \<^verbatim>\<open>pageYOffset\<close>\<close>
  | Theme_Click
  | Menu_Click                 \<comment> \<open>a click on \<^verbatim>\<open>.mobile-menu-toggle\<close>\<close>
  | Nav_Link_Click nat         \<comment> \<open>a click on the \<open>i\<close>-th \<^verbatim>\<open>nav a\<close>\<close>
  | Button_Click "jstr option" \<comment> \<open>a click on a \<^verbatim>\<open>.btn\<close> with that \<^verbatim>\<open>href\<close>\<close>
  | Form_Event form_event
  | Intersect nat real         \<comment> \<open>element \<open>k\<close> of \<open>reveal\<close> becomes visible with that ratio\<close>

section \<open>Scheduling and running callbacks\<close>

text \<open>\<^verbatim>\<open>setTimeout(f, d)\<close> for each pair, in order, at the current time.\<close>

definition schedule :: "(nat \<times> task) list \<Rightarrow> page \<Rightarrow> page" where
  "schedule ts p = p\<lparr>queue := fold (\<lambda>(d, t) q. tq_insert (clock p + d) t q) ts (queue p)\<rparr>"

definition raise_error :: "js_error \<Rightarrow> page \<Rightarrow> page" where
  "raise_error e p = p\<lparr>errors := errors p @ [e]\<rparr>"

definition form_timers :: "(nat \<times> form_task) list \<Rightarrow> (nat \<times> task) list" where
  "form_timers ts = map (\<lambda>(d, t). (d, Form_Task t)) ts"

fun run_task :: "task \<Rightarrow> page \<Rightarrow> page" where
  "run_task (Form_Task t) p =
     (case form p of
        None \<Rightarrow> p
      | Some f \<Rightarrow> (let (f', ts) = run_form_task t f in schedule (form_timers ts) (p\<lparr>form := Some f'\<rparr>)))"
| "run_task Type_Next p =
     (case hero p of
        None \<Rightarrow> p
      | Some s \<Rightarrow> (let (s', ds) = tw_type 80 s in schedule (map (\<lambda>d. (d, Type_Next)) ds) (p\<lparr>hero := Some s'\<rparr>)))"
| "run_task Fade_In p = p\<lparr>body_opacity := js ''1''\<rparr>"
| "run_task (Bar_Width w) p = p\<lparr>reveal := write_width w (reveal p)\<rparr>"

section \<open>The top-level code and the listeners\<close>

text \<open>What the script does when it runs (lines 1--10, 67--78, 124--128, 158--165 and
  the call of \<^verbatim>\<open>animateSkillBars\<close> at 383--387), on a page at
  the given path whose \<^verbatim>\<open>#hero-title\<close> holds the given text, if any.\<close>

definition script_init :: "jstr \<Rightarrow> jstr option \<Rightarrow> page \<Rightarrow> page" where
  "script_init path title p =
     (let p1 = p\<lparr>links := highlight_nav path (links p), theme := theme_load (theme p),
                  reveal := reveal_init (reveal p)\<rparr> in
      case hero_typewriter title of
        None \<Rightarrow> p1
      | Some (s, ds) \<Rightarrow> schedule (map (\<lambda>d. (d, Type_Next)) ds) (p1\<lparr>hero := Some s\<rparr>))"

text \<open>One event. For a click on a navigation link the listeners run in the order they
  were registered: the menu's close listener (line 50, present only with a toggle),
  then the page-transition listener (line 391). The anchor listener of line 169, which
  a link whose \<^verbatim>\<open>href\<close> starts with \<^verbatim>\<open>#\<close> also carries, is not dispatched here:
  its effects are the scroll position, which the page state does not hold, and its
  exception, modelled on its own by \<open>anchor_click\<close>. The state also admits
  navigation links without a \<^verbatim>\<open>nav\<close> element, which no document has.\<close>

fun step :: "event \<Rightarrow> page \<Rightarrow> page" where
  "step (Wait d) p =
     p\<lparr>clock := (case queue p of [] \<Rightarrow> clock p + d | e # _ \<Rightarrow> max (clock p) (min (clock p + d) (fst e)))\<rparr>"
| "step Tick p =
     (case queue p of
        [] \<Rightarrow> p
      | (d, t) # q \<Rightarrow> run_task t (p\<lparr>clock := max (clock p) d, queue := q\<rparr>))"
| "step Load p = schedule [(100, Fade_In)] (p\<lparr>body_opacity := js ''0''\<rparr>)"
| "step (Scroll_To y) p =
     (let p1 = (case sticky_header y (scroll p) of Inl e \<Rightarrow> raise_error e p | Inr _ \<Rightarrow> p) in
      p1\<lparr>scroll := scroll_event y (scroll p)\<rparr>)"
| "step Theme_Click p = p\<lparr>theme := theme_click (theme p)\<rparr>"
| "step Menu_Click p =
     (if menu_toggle (menu p) then
        (case menu_toggle_click (menu p) of Inl e \<Rightarrow> raise_error e p | Inr m \<Rightarrow> p\<lparr>menu := m\<rparr>)
      else p)"
| "step (Nav_Link_Click i) p =
     (if i < length (links p) then
        (let p1 = (if menu_toggle (menu p) then
                     (case menu_link_click (menu p) of Inl e \<Rightarrow> raise_error e p | Inr m \<Rightarrow> p\<lparr>menu := m\<rparr>)
                   else p)
         in p1\<lparr>body_opacity := transition_click (link_href (links p ! i)) (body_opacity p1)\<rparr>)
      else p)"
| "step (Button_Click href) p = p\<lparr>body_opacity := transition_click href (body_opacity p)\<rparr>"
| "step (Form_Event e) p =
     (case form p of
        None \<Rightarrow> p
      | Some f \<Rightarrow>
          (case form_handle e f of
             Inl err \<Rightarrow> raise_error err p
           | Inr (f', ts) \<Rightarrow> schedule (form_timers ts) (p\<lparr>form := Some f'\<rparr>)))"
| "step (Intersect k r) p =
     (let (s', ts) = intersect k r (reveal p) in
      schedule (map (\<lambda>(d, w). (d, Bar_Width w)) ts) (p\<lparr>reveal := s'\<rparr>))"

fun run :: "event list \<Rightarrow> page \<Rightarrow> page" where
  "run [] p = p"
| "run (e # es) p = run es (step e p)"

section \<open>Properties\<close>

text \<open>What is left to run: each pending callback counts the callbacks it may still
  schedule (a pending \<open>SubmitDone\<close> schedules one \<open>HideMessage\<close>); the typewriter's
  chain counts the code units it has still to type.\<close>

fun task_cost :: "task \<Rightarrow> nat" where
  "task_cost (Form_Task SubmitDone) = 2"
| "task_cost (Form_Task HideMessage) = 1"
| "task_cost Type_Next = 1"
| "task_cost Fade_In = 1"
| "task_cost (Bar_Width w) = 1"

fun tw_rest :: "typewriter option \<Rightarrow> nat" where
  "tw_rest None = 0"
| "tw_rest (Some s) = length (tw_text s) - tw_i s"

definition qcost :: "task timer_queue \<Rightarrow> nat" where
  "qcost q = sum_list (map (task_cost \<circ> snd) q)"

definition work :: "page \<Rightarrow> nat" where
  "work p = qcost (queue p) + (if Type_Next \<in> snd ` set (queue p) then tw_rest (hero p) else 0)"

text \<open>A page with the contact form of the spec's examples and nothing else: no theme
  button, no header, no hero, a closed mobile menu, no navigation links.\<close>

definition demo_page :: "form_page \<Rightarrow> page" where
  "demo_page f = \<lparr>clock = 0, queue = [], form = Some f,
     theme = \<lparr>body_classes = [], theme_icon = None, local_storage = Map.empty, toggle_btn = False\<rparr>,
     scroll = \<lparr>header_classes = None, last_scroll = 0, hero_offset = None\<rparr>,
     menu = closed_menu, links = [], reveal = \<lparr>rv_elems = [], rv_observed = [], bar_observers = []\<rparr>,
     hero = None, body_opacity = [], errors = []\<rparr>"

text \<open>The contact form of the spec's examples with every field empty.\<close>

definition empty_form :: form_page where
  "empty_form = spec_page '''' '''' '''' ''''"

section \<open>Lemmas\<close>

subsection \<open>Scheduling\<close>

lemma mset_fold_tq_insert:
  "mset (fold (\<lambda>(d, t) q. tq_insert (c + d) t q) ts q) = mset q + mset (map (\<lambda>(d, t). (c + d, t)) ts)"
  by (induction ts arbitrary: q) (auto simp: split_beta)

lemma set_fold_tq_insert:
  "set (fold (\<lambda>(d, t) q. tq_insert (c + d) t q) ts q) = set q \<union> (\<lambda>(d, t). (c + d, t)) ` set ts"
  by (induction ts arbitrary: q) (auto simp: split_beta)

lemma set_queue_schedule:
  "set (queue (schedule ts p)) = set (queue p) \<union> (\<lambda>(d, t). (clock p + d, t)) ` set ts"
  by (simp add: schedule_def set_fold_tq_insert)

lemma sum_list_map_mset: "sum_list (map f xs) = sum_mset (image_mset f (mset xs))"
  by (induction xs) simp_all

lemma qcost_schedule:
  "qcost (queue (schedule ts p)) = qcost (queue p) + qcost ts"
  by (simp add: qcost_def schedule_def sum_list_map_mset mset_fold_tq_insert image_mset.compositionality
      comp_def split_beta)

lemma qcost_Cons [simp]: "qcost ((d, t) # q) = task_cost t + qcost q"
  by (simp add: qcost_def)

lemma qcost_Nil [simp]: "qcost [] = 0"
  by (simp add: qcost_def)

lemma task_cost_pos: "0 < task_cost t"
  by (cases t rule: task_cost.cases) simp_all

lemma length_le_qcost: "length q \<le> qcost q"
proof (induction q)
  case (Cons e q) then show ?case using task_cost_pos [of "snd e"] by (cases e) simp
qed simp

lemma schedule_fields [simp]:
  "clock (schedule ts p) = clock p" "form (schedule ts p) = form p" "hero (schedule ts p) = hero p"
  "theme (schedule ts p) = theme p" "scroll (schedule ts p) = scroll p" "menu (schedule ts p) = menu p"
  "links (schedule ts p) = links p" "reveal (schedule ts p) = reveal p" "body_opacity (schedule ts p) = body_opacity p"
  "errors (schedule ts p) = errors p"
  by (simp_all add: schedule_def)

lemma clock_run_task [simp]: "clock (run_task t p) = clock p"
  by (cases t) (auto split: option.split prod.split)

lemma schedule_Nil [simp]: "schedule [] p = p"
  by (simp add: schedule_def)

subsection \<open>The work measure\<close>

lemma has_tn_schedule:
  "(Type_Next \<in> snd ` set (queue (schedule ts p))) = (Type_Next \<in> snd ` set (queue p) \<or> Type_Next \<in> snd ` set ts)"
  by (force simp: set_queue_schedule split_beta)

lemma form_timers_no_tn: "Type_Next \<notin> snd ` set (form_timers ts)"
  by (auto simp: form_timers_def)

lemma qcost_form_timers_run:
  "qcost (form_timers (snd (run_form_task t f))) < task_cost (Form_Task t)"
  by (cases t) (auto simp: run_form_task_def submit_done_def show_form_message_def form_timers_def
      qcost_def split_beta split: option.split)

lemma work_tick_form:
  assumes "queue p = (d, Form_Task t) # q"
  shows "work (step Tick p) < work p"
proof (cases "form p")
  case None then show ?thesis using assms task_cost_pos [of "Form_Task t"] by (simp add: work_def)
next
  case (Some f)
  obtain f' ts where r: "run_form_task t f = (f', ts)" by fastforce
  then show ?thesis using assms Some qcost_form_timers_run [of t f]
    by (simp add: work_def qcost_schedule has_tn_schedule form_timers_no_tn)
qed

lemma work_tick_type:
  assumes "queue p = (d, Type_Next) # q"
  shows "work (step Tick p) < work p"
proof (cases "hero p")
  case None then show ?thesis using assms by (simp add: work_def)
next
  case (Some s)
  show ?thesis
  proof (cases "tw_i s < length (tw_text s)")
    case True
    then show ?thesis using assms Some
      by (simp add: work_def tw_type_def qcost_schedule has_tn_schedule)
  next
    case False
    then show ?thesis using assms Some
      by (simp add: work_def tw_type_def)
  qed
qed

lemma work_tick: "queue p \<noteq> [] \<Longrightarrow> work (step Tick p) < work p"
proof -
  assume "queue p \<noteq> []"
  then obtain d t q where h: "queue p = (d, t) # q" by (metis list.exhaust prod.exhaust)
  show ?thesis
  proof (cases t)
    case (Form_Task ft) then show ?thesis using work_tick_form h by simp
  next
    case Type_Next then show ?thesis using work_tick_type h by simp
  next
    case Fade_In then show ?thesis using h by (simp add: work_def)
  next
    case (Bar_Width w) then show ?thesis using h by (simp add: work_def)
  qed
qed

lemma queue_Nil_work: "work p = 0 \<Longrightarrow> queue p = []"
  using length_le_qcost [of "queue p"] by (simp add: work_def)

lemma step_Tick_Nil: "queue p = [] \<Longrightarrow> step Tick p = p"
  by simp

lemma ticks_drain_le: "work p \<le> n \<Longrightarrow> queue (run (replicate n Tick) p) = []"
proof (induction n arbitrary: p)
  case 0 then show ?case by (simp add: queue_Nil_work)
next
  case (Suc n)
  show ?case
  proof (cases "queue p = []")
    case True
    then have "work p \<le> n" by (simp add: work_def)
    then show ?thesis using Suc.IH True by simp
  next
    case False
    then have "work (step Tick p) \<le> n" using work_tick [OF False] Suc.prems by simp
    then show ?thesis using Suc.IH by simp
  qed
qed

subsection \<open>Claims\<close>

text \<open>C26. Left alone, the page falls quiet: \<open>work p\<close> ticks run every pending
  callback, including the ones they schedule (the hide timer of a submission, the
  typewriter's chain), and leave no timer.\<close>

theorem ticks_drain: "queue (run (replicate (work p) Tick) p) = []"
  by (rule ticks_drain_le) simp

text \<open>C27. A pending hide timer is not cancelled by a later submission. When the user
  submits invalid data while the five-second timer of an earlier "Thank you" notice is
  the next timer due, the error notice "Please fix the errors above." appears and that
  timer hides it as soon as it fires, although error notices are meant to stay until
  the errors are corrected.\<close>

theorem stale_hide_timer_hides_error:
  assumes "form p = Some f" "queue p = (d, Form_Task HideMessage) # q" "submit_handler f = Inr (f1, [])"
  shows "\<exists>fm. form_msg f1 = Some fm \<and> msg_text fm = js ''Please fix the errors above.''
     \<and> msg_class fm = js ''form-message error''
     \<and> form (run [Form_Event Submit, Tick] p) = Some (f1\<lparr>form_msg := Some (fm\<lparr>msg_display := js ''none''\<rparr>)\<rparr>)"
proof -
  obtain fm where fm: "form_msg f1 = Some fm" "msg_text fm = js ''Please fix the errors above.''"
    "msg_class fm = js ''form-message error''"
    using submit_handler_error_notice [OF assms(3)] by blast
  have "form (run [Form_Event Submit, Tick] p) = Some (hide_message f1)"
    using assms by (simp add: form_timers_def run_form_task_def)
  then show ?thesis using fm by (simp add: hide_message_def)
qed

text \<open>C28. The simulated send of a valid submission is not cancelled by a later invalid
  one. When the user submits invalid data while the send callback is the next timer
  due, the error notice appears, and when the callback fires it replaces the notice
  with "Thank you", success style, resets every field to its default and sets the
  five-second hide timer.\<close>

theorem stale_submit_done_after_invalid:
  assumes "form p = Some f" "queue p = (d, Form_Task SubmitDone) # q" "submit_handler f = Inr (f1, [])"
  shows "\<exists>fm f2. form_msg f1 = Some fm \<and> msg_text fm = js ''Please fix the errors above.''
     \<and> form (run [Form_Event Submit, Tick] p) = Some f2
     \<and> form_msg f2 = Some (fm\<lparr>msg_text := js ''Thank you! Your message has been sent. I'' @ [39] @ js ''ll get back to you soon.'',
                               msg_class := js ''form-message success'', msg_display := js ''block''\<rparr>)
     \<and> map in_value (inputs f2) = map in_default (inputs f1)
     \<and> (max (clock p) d + 5000, Form_Task HideMessage) \<in> set (queue (run [Form_Event Submit, Tick] p))"
proof -
  obtain fm where fm: "form_msg f1 = Some fm" "msg_text fm = js ''Please fix the errors above.''"
    using submit_handler_error_notice [OF assms(3)] by blast
  have r: "run [Form_Event Submit, Tick] p = run_task (Form_Task SubmitDone) (p\<lparr>form := Some f1, clock := max (clock p) d, queue := q\<rparr>)"
    using assms by (simp add: form_timers_def)
  have c: "js ''form-message '' @ js ''success'' = js ''form-message success''" by (simp add: js_def)
  show ?thesis
    using fm thank_you_includes c unfolding r
    by (simp add: run_form_task_def submit_done_def show_form_message_def form_timers_def
        set_queue_schedule comp_def)
qed

subsection \<open>Witnesses\<close>

theorem stale_hide_timer_hides_error_witness:
  "\<exists>f1 fm. submit_handler empty_form = Inr (f1, [])
     \<and> form (run [Form_Event Submit, Tick] ((demo_page empty_form)\<lparr>queue := [(1500, Form_Task HideMessage)]\<rparr>))
         = Some (f1\<lparr>form_msg := Some (fm\<lparr>msg_display := js ''none''\<rparr>)\<rparr>)"
proof -
  let ?F = "empty_form"
  have "\<not> isl (submit_handler ?F)" by code_simp
  then obtain f1 ts where h: "submit_handler ?F = Inr (f1, ts)" by (cases "submit_handler ?F") auto
  have "snd (projr (submit_handler ?F)) = []" by code_simp
  with h have h0: "submit_handler ?F = Inr (f1, [])" by simp
  show ?thesis
    using stale_hide_timer_hides_error [of "(demo_page ?F)\<lparr>queue := [(1500, Form_Task HideMessage)]\<rparr>" ?F 1500 "[]" f1] h0
    by (auto simp: demo_page_def)
qed

theorem stale_submit_done_after_invalid_witness:
  "\<exists>f1 fm f2. submit_handler empty_form = Inr (f1, [])
     \<and> form_msg f1 = Some fm \<and> msg_text fm = js ''Please fix the errors above.''
     \<and> form (run [Form_Event Submit, Tick] ((demo_page empty_form)\<lparr>queue := [(1500, Form_Task SubmitDone)]\<rparr>)) = Some f2
     \<and> msg_class (the (form_msg f2)) = js ''form-message success''"
proof -
  let ?F = "empty_form"
  have "\<not> isl (submit_handler ?F)" by code_simp
  then obtain f1 ts where h: "submit_handler ?F = Inr (f1, ts)" by (cases "submit_handler ?F") auto
  have "snd (projr (submit_handler ?F)) = []" by code_simp
  with h have h0: "submit_handler ?F = Inr (f1, [])" by simp
  show ?thesis
    using stale_submit_done_after_invalid [of "(demo_page ?F)\<lparr>queue := [(1500, Form_Task SubmitDone)]\<rparr>" ?F 1500 "[]" f1] h0
    by (auto simp: demo_page_def)
qed

end
