(* ===== verification/Spec2Isabelle.thy ===== *)
theory Spec2Isabelle
  imports Page
begin

text \<open>
  \<^bold>\<open>A verification model of the portfolio site's script, \<^verbatim>\<open>src/js/main.js\<close>.\<close>

  The script runs once when the page loads and then reacts to DOM events. It has no
  state of its own beyond a few closures; its state is the DOM, \<^verbatim>\<open>localStorage\<close>
  and the pending \<^verbatim>\<open>setTimeout\<close> callbacks. Its parts, in source order, and the
  theories that model them:

  \<^item> \<^theory_text>\<open>JS_Prelude\<close>: the browser primitives the script calls, modelled from
    their specifications: strings as lists of UTF-16 code units (\<open>jstr\<close>), \<^verbatim>\<open>trim\<close>,
    \<^verbatim>\<open>startsWith\<close>, \<^verbatim>\<open>includes\<close>, \<^verbatim>\<open>split\<close>/\<^verbatim>\<open>join\<close>, a \<^verbatim>\<open>DOMTokenList\<close> as a
    duplicate-free class list (\<open>cl_add\<close>, \<open>cl_remove\<close>, \<open>cl_toggle\<close>), the timer queue
    (\<open>tq_insert\<close>: ordered by due time, first in first out on ties), the CSSOM read-back
    of a hex colour, and exceptions as \<open>js_error + 'a\<close>.
  \<^item> \<^theory_text>\<open>Nav\<close> (lines 1--10, 168--182, 389--398): the active-link highlighter
    (\<open>current_page\<close>, \<open>highlight_nav\<close>), the smooth anchor scroll (\<open>anchor_click\<close>;
    \<^verbatim>\<open>querySelector\<close> is modelled for plain id selectors and for fragments that
    cannot start one, which throw a SyntaxError) and the page-transition fade
    (\<open>transition_click\<close>).
  \<^item> \<^theory_text>\<open>Scroll\<close> (lines 12--26, 340--348): the sticky header and the parallax
    listener, run in registration order per scroll event.
  \<^item> \<^theory_text>\<open>Mobile_Menu\<close> (lines 28--59): the toggle and the closing of the menu by a
    navigation link, with the three bars of the icon.
  \<^item> \<^theory_text>\<open>Theme\<close> (lines 61--102): the load-time read of the stored theme and the
    toggle, with and without the icon element.
  \<^item> \<^theory_text>\<open>Typewriter\<close> (lines 104--128): the self-rescheduling \<^verbatim>\<open>type()\<close> closure
    and the hero title's call.
  \<^item> \<^theory_text>\<open>Reveal\<close> (lines 130--165, 359--387): the global intersection observer,
    the per-bar observers of \<^verbatim>\<open>animateSkillBars\<close> and the width timers.
  \<^item> \<^theory_text>\<open>Contact_Form\<close> (lines 184--338): the submit, blur and input listeners,
    \<^verbatim>\<open>validateField\<close>, \<^verbatim>\<open>showFieldError\<close>, \<^verbatim>\<open>showFormMessage\<close>, the regular
    expression of the e-mail rule, and the two form timers.
  \<^item> \<^theory_text>\<open>Page\<close> (the whole file, and the load listener of lines 350--357): the
    composition. Its state \<open>page\<close> holds each component's state, the clock, the one
    timer queue that all \<^verbatim>\<open>setTimeout\<close> calls share, and the log of uncaught
    exceptions. \<open>script_init\<close> is the top-level code; \<open>step\<close> dispatches one event to
    the listeners registered for it (all but the anchor listener), in registration order, so that an exception in one
    listener is logged and the next still runs; \<open>Wait\<close> lets time pass up to the next
    due timer and \<open>Tick\<close> runs the earliest callback (\<open>run_task\<close>).

  Each component's handlers are functions from its state to its new state and the
  timers it sets (delays and callbacks); failing handlers return \<open>Inl\<close> of the
  exception. The components share no state, so each is proved on its own and
  \<^theory_text>\<open>Page\<close> proves what concerns their interleaving.

  \<^bold>\<open>What is proved.\<close>
  \<^item> Contact form: the submit handler's outcome on every branch (error notice and
    field errors exactly for the failing rules, else the sending notice and the
    1.5 s timer), the e-mail rule against a declarative reading of its pattern, the
    borders after validation, revalidation of one field against its rule (border,
    error divs, frame), and the invariant of at most one error div per group.
  \<^item> Theme: icon consistency from load and through toggles, persistence, involution,
    and that load never removes a \<^verbatim>\<open>dark\<close> class written by the markup.
  \<^item> Navigation: the current page is the last path segment, at most one link is
    active, and the anchor listener scrolls for plain identifiers and throws for
    fragments that cannot start one.
  \<^item> Scroll and menu: the header depends only on the latest position; parallax survives
    a missing header; the menu icon agrees with the menu state.
  \<^item> Typewriter: the chain of callbacks ends after \<open>L + 1\<close> calls and shows the
    prefixes at the times it does; the spec's example differs.
  \<^item> Reveal: at most one global-observer animation per element, refinement of a
    set-level specification (\<open>spec_intersect\<close>), a well-formedness invariant, and
    that the first bar of every skill item is nevertheless written twice.
  \<^item> Page: the queue drains in \<open>work p\<close> ticks (a measure that every tick
    decreases), and on every page a pending hide timer or simulated send survives a
    later invalid submission (the interleavings the spec rules out).

  \<^bold>\<open>Bounds and fuel.\<close> The typewriter chain is run with fuel by \<open>tw_timeline\<close>; any
  fuel above the text's length gives the whole, finite timeline, which is proved. The
  page's timers are drained by \<open>work p\<close> ticks, proved enough for every page. All
  other functions are total by structural recursion.

  \<^bold>\<open>Not modelled.\<close> The console greeting (lines 400--401) is output only. The
  anchor listener is not part of \<open>step\<close>: its effects are the scroll position and
  its exception, and \<^verbatim>\<open>querySelector\<close> on escapes and compound or complex
  selectors (\<^verbatim>\<open>#a.b\<close>) is outside the model. The page state admits navigation
  links without a \<^verbatim>\<open>nav\<close> element, which no document has. Layout,
  CSS transitions and scrolling are not modelled: \<^verbatim>\<open>scrollIntoView\<close> is recorded
  as the outcome of the anchor listener, and intersection geometry is abstracted to
  an entry with a visible ratio compared with each observer's threshold (the initial
  notification on \<^verbatim>\<open>observe\<close> and the crossing of thresholds downwards are not
  distinguished). Documents are flat: a skill item's bars are its descendants and
  nested skill items are not modelled.
\<close>

end
